theory Spec2Isabelle
  imports Main
begin

section \<open>Python values: exceptions, indexing, slicing, strings\<close>

text \<open>
  The analyser is \<^verbatim>\<open>backend/app/services/code_parser_service.py\<close>. Its exceptions are
  values here: a computation that may raise has type \<open>exn + 'a\<close>, \<open>Inl\<close> being the
  exception. Python integers are \<open>int\<close>; a Python \<open>str\<close> is a \<open>string\<close> (its code points
  below 256).
\<close>

datatype exn = IndexError | AttributeError string | OtherError string

text \<open>\<^verbatim>\<open>str(e)\<close>, the message that \<^verbatim>\<open>parse_python_file\<close> stores under \<^verbatim>\<open>'error'\<close>.\<close>

fun str_exn :: "exn \<Rightarrow> string" where
  "str_exn IndexError = ''list index out of range''"
| "str_exn (AttributeError m) = m"
| "str_exn (OtherError m) = m"

definition try_bind :: "exn + 'a \<Rightarrow> ('a \<Rightarrow> exn + 'b) \<Rightarrow> exn + 'b" where
  "try_bind m f = (case m of Inl e \<Rightarrow> Inl e | Inr x \<Rightarrow> f x)"

text \<open>
  The position that a list of length \<open>n\<close> has for the index \<open>i\<close>: a negative index counts
  from the end, and there is none out of range.
\<close>

definition norm_index :: "nat \<Rightarrow> int \<Rightarrow> nat option" where
  "norm_index n i =
     (if 0 \<le> i \<and> i < int n then Some (nat i)
      else if - int n \<le> i \<and> i < 0 then Some (nat (int n + i))
      else None)"

text \<open>\<^verbatim>\<open>xs[i]\<close>, which raises out of range.\<close>

definition py_index :: "'a list \<Rightarrow> int \<Rightarrow> exn + 'a" where
  "py_index xs i =
     (case norm_index (length xs) i of Some k \<Rightarrow> Inr (xs ! k) | None \<Rightarrow> Inl IndexError)"

text \<open>The list after \<^verbatim>\<open>xs[i] = f(xs[i])\<close>, raising as \<^verbatim>\<open>xs[i]\<close> does.\<close>

definition py_update :: "'a list \<Rightarrow> int \<Rightarrow> ('a \<Rightarrow> 'a) \<Rightarrow> exn + 'a list" where
  "py_update xs i f =
     (case norm_index (length xs) i of
        Some k \<Rightarrow> Inr (xs[k := f (xs ! k)])
      | None \<Rightarrow> Inl IndexError)"

text \<open>A slice bound is clamped into \<open>0..len\<close>; slices never raise.\<close>

definition py_bound :: "nat \<Rightarrow> int \<Rightarrow> nat" where
  "py_bound n i = (if i < 0 then nat (max 0 (int n + i)) else min n (nat i))"

definition py_slice :: "'a list \<Rightarrow> int \<Rightarrow> int \<Rightarrow> 'a list" where
  "py_slice xs i j =
     (let a = py_bound (length xs) i; b = py_bound (length xs) j
      in take (b - a) (drop a xs))"

definition py_slice_from :: "'a list \<Rightarrow> int \<Rightarrow> 'a list" where
  "py_slice_from xs i = drop (py_bound (length xs) i) xs"

definition py_slice_to :: "'a list \<Rightarrow> int \<Rightarrow> 'a list" where
  "py_slice_to xs j = take (py_bound (length xs) j) xs"

definition LF :: char where "LF = CHR 0x0A"
definition CR :: char where "CR = CHR 0x0D"

text \<open>\<^verbatim>\<open>sep.join(parts)\<close>.\<close>

fun join :: "string \<Rightarrow> string list \<Rightarrow> string" where
  "join sep [] = []"
| "join sep [x] = x"
| "join sep (x # y # ys) = x @ sep @ join sep (y # ys)"

text \<open>
  The characters at which \<^verbatim>\<open>str.splitlines\<close> ends a line (those below 256): line feed,
  vertical tab, form feed, carriage return, the file, group and record separators, and
  next line.
\<close>

definition is_linebreak :: "char \<Rightarrow> bool" where
  "is_linebreak c \<longleftrightarrow>
     c = CHR 0x0A \<or> c = CHR 0x0B \<or> c = CHR 0x0C \<or> c = CHR 0x0D \<or>
     c = CHR 0x1C \<or> c = CHR 0x1D \<or> c = CHR 0x1E \<or> c = CHR 0x85"

text \<open>
  \<^verbatim>\<open>str.splitlines()\<close>: the line breaks are dropped, \<^verbatim>\<open>\r\n\<close> is one break, and a
  break at the very end opens no further line. The first argument is the line being read.
\<close>

fun splitlines_from :: "string \<Rightarrow> string \<Rightarrow> string list" where
  "splitlines_from cur [] = (if cur = [] then [] else [cur])"
| "splitlines_from cur [c] = (if is_linebreak c then [cur] else [cur @ [c]])"
| "splitlines_from cur (c # d # cs) =
     (if c = CR \<and> d = LF then cur # splitlines_from [] cs
      else if is_linebreak c then cur # splitlines_from [] (d # cs)
      else splitlines_from (cur @ [c]) (d # cs))"

definition splitlines :: "string \<Rightarrow> string list" where
  "splitlines s = splitlines_from [] s"



section \<open>The syntax tree\<close>

text \<open>
  The position attributes of a node. \<open>None\<close> is an attribute the node does not have
  (\<^verbatim>\<open>hasattr\<close> is false): a tree of Python before 3.8 has no end positions, and nodes
  such as \<^verbatim>\<open>Module\<close> and \<^verbatim>\<open>arguments\<close> have no position at all.
\<close>

record attrs =
  lineno :: "int option"
  col_offset :: "int option"
  end_lineno :: "int option"
  end_col_offset :: "int option"

text \<open>
  The nodes of \<^verbatim>\<open>ast\<close>, untyped as in Python: the kinds the analyser tells apart, with
  their fields in the order of \<^verbatim>\<open>_fields\<close>, and \<open>Other\<close> for every other kind, with its
  child nodes in field order.
  \<^item> \<open>Import attrs names\<close>, \<open>ImportFrom attrs module names\<close>, \<open>Alias attrs name asname\<close>;
  \<^item> \<open>ClassDef attrs name bases keywords body decorator_list\<close>;
  \<^item> \<open>FunctionDef attrs name args body decorator_list returns\<close>, and the same fields for
    \<open>AsyncFunctionDef\<close>;
  \<^item> \<open>Arguments posonlyargs args vararg kwonlyargs kw_defaults kwarg defaults\<close>
    (\<open>kw_defaults\<close> without its \<^verbatim>\<open>None\<close> entries), \<open>Arg attrs arg annotation\<close>;
  \<^item> \<open>Assign attrs targets value\<close>;
  \<^item> \<open>Name attrs id\<close>, \<open>Attribute attrs value attr\<close>, \<open>Call attrs func args keywords\<close>.
\<close>

datatype node =
    Module "node list"
  | Import attrs "node list"
  | ImportFrom attrs "string option" "node list"
  | Alias attrs string "string option"
  | ClassDef attrs string "node list" "node list" "node list" "node list"
  | FunctionDef attrs string node "node list" "node list" "node option"
  | AsyncFunctionDef attrs string node "node list" "node list" "node option"
  | Arguments "node list" "node list" "node option" "node list" "node list" "node option"
      "node list"
  | Arg attrs string "node option"
  | Assign attrs "node list" node
  | Name attrs string
  | Attribute attrs node string
  | Call attrs node "node list" "node list"
  | Other attrs "node list"

definition no_attrs :: attrs where
  "no_attrs = \<lparr>lineno = None, col_offset = None, end_lineno = None, end_col_offset = None\<rparr>"

fun attrs_of :: "node \<Rightarrow> attrs" where
  "attrs_of (Module body) = no_attrs"
| "attrs_of (Import a names) = a"
| "attrs_of (ImportFrom a module names) = a"
| "attrs_of (Alias a name asname) = a"
| "attrs_of (ClassDef a name bases keywords body decs) = a"
| "attrs_of (FunctionDef a name args body decs returns) = a"
| "attrs_of (AsyncFunctionDef a name args body decs returns) = a"
| "attrs_of (Arguments posonly args vararg kwonly kw_defaults kwarg defaults) = no_attrs"
| "attrs_of (Arg a name annotation) = a"
| "attrs_of (Assign a targets v) = a"
| "attrs_of (Name a ident) = a"
| "attrs_of (Attribute a v attr) = a"
| "attrs_of (Call a func args keywords) = a"
| "attrs_of (Other a children) = a"

fun opt_list :: "'a option \<Rightarrow> 'a list" where
  "opt_list None = []"
| "opt_list (Some x) = [x]"

text \<open>\<^verbatim>\<open>ast.iter_child_nodes(node)\<close>: the child nodes, field by field.\<close>

fun iter_child_nodes :: "node \<Rightarrow> node list" where
  "iter_child_nodes (Module body) = body"
| "iter_child_nodes (Import a names) = names"
| "iter_child_nodes (ImportFrom a module names) = names"
| "iter_child_nodes (Alias a name asname) = []"
| "iter_child_nodes (ClassDef a name bases keywords body decs) =
     bases @ keywords @ body @ decs"
| "iter_child_nodes (FunctionDef a name args body decs returns) =
     args # body @ decs @ opt_list returns"
| "iter_child_nodes (AsyncFunctionDef a name args body decs returns) =
     args # body @ decs @ opt_list returns"
| "iter_child_nodes (Arguments posonly args vararg kwonly kw_defaults kwarg defaults) =
     posonly @ args @ opt_list vararg @ kwonly @ kw_defaults @ opt_list kwarg @ defaults"
| "iter_child_nodes (Arg a name annotation) = opt_list annotation"
| "iter_child_nodes (Assign a targets v) = targets @ [v]"
| "iter_child_nodes (Name a ident) = []"
| "iter_child_nodes (Attribute a v attr) = [v]"
| "iter_child_nodes (Call a func args keywords) = func # args @ keywords"
| "iter_child_nodes (Other a children) = children"

text \<open>\<^verbatim>\<open>node.lineno\<close>, which raises on a node without the attribute.\<close>

definition get_lineno :: "node \<Rightarrow> exn + int" where
  "get_lineno node =
     (case lineno (attrs_of node) of
        Some l \<Rightarrow> Inr l
      | None \<Rightarrow> Inl (AttributeError ''object has no attribute 'lineno' ''))"

section \<open>Source text and end line of a node\<close>

text \<open>\<^verbatim>\<open>PythonASTVisitor._get_node_source\<close>, on the lines \<^verbatim>\<open>self.source_lines\<close>.\<close>

definition get_node_source :: "string list \<Rightarrow> node \<Rightarrow> exn + string" where
  "get_node_source source_lines node =
     (case (lineno (attrs_of node), end_lineno (attrs_of node)) of
        (Some ln, Some eln) \<Rightarrow>
          (let start_line = ln - 1; end_line = eln - 1 in
           case (col_offset (attrs_of node), end_col_offset (attrs_of node)) of
             (Some co, Some eco) \<Rightarrow>
               if start_line = end_line then
                 try_bind (py_index source_lines start_line) (\<lambda>l.
                 Inr (py_slice l co eco))
               else
                 try_bind (py_index source_lines start_line) (\<lambda>first.
                 try_bind (py_index source_lines end_line) (\<lambda>final.
                 Inr (join [LF]
                   ([py_slice_from first co]
                    @ py_slice source_lines (start_line + 1) end_line
                    @ [py_slice_to final eco]))))
           | _ \<Rightarrow> Inr (join [LF] (py_slice source_lines start_line (end_line + 1))))
      | _ \<Rightarrow> Inr [])"

lemma size_opt_list: "size_list f (opt_list x) \<le> size_option f x"
  by (cases x) simp_all

lemma size_list_member: "x \<in> set xs \<Longrightarrow> f x < size_list f xs"
  by (induction xs) auto

lemma size_iter_child_nodes: "size_list size (iter_child_nodes n) \<le> size n"
proof (cases n)
  case (FunctionDef a name args body decs returns)
  then show ?thesis using size_opt_list [of size returns] by simp
next
  case (AsyncFunctionDef a name args body decs returns)
  then show ?thesis using size_opt_list [of size returns] by simp
next
  case (Arguments posonly args vararg kwonly kw_defaults kwarg defaults)
  then show ?thesis
    using size_opt_list [of size vararg] size_opt_list [of size kwarg] by simp
next
  case (Arg a name annotation)
  then show ?thesis using size_opt_list [of size annotation] by simp
qed simp_all

lemma size_children_twice: "2 * size_list size (iter_child_nodes n) < Suc (2 * size n)"
  using size_iter_child_nodes [of n] by simp

lemma size_child: "c \<in> set (iter_child_nodes n) \<Longrightarrow> size c < size n"
  using size_list_member [of c "iter_child_nodes n" size] size_iter_child_nodes [of n]
  by simp

text \<open>
  \<^verbatim>\<open>PythonASTVisitor._get_end_line\<close>; \<open>end_line_children\<close> is its loop over the child
  nodes, carrying \<^verbatim>\<open>max_line\<close>.
\<close>

function get_end_line :: "node \<Rightarrow> exn + int"
  and end_line_children :: "node list \<Rightarrow> int \<Rightarrow> exn + int" where
  "get_end_line node =
     (case end_lineno (attrs_of node) of
        Some e \<Rightarrow> Inr e
      | None \<Rightarrow>
          try_bind (get_lineno node) (\<lambda>max_line.
          end_line_children (iter_child_nodes node) max_line))"
| "end_line_children [] max_line = Inr max_line"
| "end_line_children (child # rest) max_line =
     (if lineno (attrs_of child) \<noteq> None then
        try_bind (get_end_line child) (\<lambda>child_end.
        end_line_children rest (max max_line child_end))
      else end_line_children rest max_line)"
  by pat_completeness auto
termination
proof (relation "measure (\<lambda>x. case x of Inl n \<Rightarrow> 2 * size n + 1
                                   | Inr (cs, m) \<Rightarrow> 2 * size_list size cs)")
  show "wf (measure (\<lambda>x. case x of Inl n \<Rightarrow> 2 * size n + 1
                                | Inr (cs, m) \<Rightarrow> 2 * size_list size cs))"
    by simp
next
  fix node :: node and x :: int
  show "(Inr (iter_child_nodes node, x), Inl node)
        \<in> measure (\<lambda>x. case x of Inl n \<Rightarrow> 2 * size n + 1
                               | Inr (cs, m) \<Rightarrow> 2 * size_list size cs)"
    using size_iter_child_nodes [of node] by simp
qed simp_all

section \<open>The records of the analysis\<close>

text \<open>
  The dictionaries the analyser builds, one record each. A key that a dictionary may
  lack is an \<open>option\<close> field, \<open>None\<close> when the key is absent.
\<close>

record import_info =
  imp_name :: string
  imp_alias :: "string option"
  imp_line :: int

record param_info =
  p_name :: string
  p_type :: "string option"
  p_default :: "string option"

record func_info =
  f_name :: string
  f_line_range :: "int \<times> int"
  f_content :: string
  f_docstring :: "string option"
  f_params :: "param_info list"
  f_returns :: "string option"

record class_info =
  c_name :: string
  c_line_range :: "int \<times> int"
  c_methods :: "func_info list"
  c_content :: string
  c_docstring :: "string option"
  c_bases :: "string list option"

record variable_info =
  var_name :: string
  var_line :: int
  var_value :: string

text \<open>The state of a \<^verbatim>\<open>PythonASTVisitor\<close>.\<close>

record visitor =
  v_source_lines :: "string list"
  v_imports :: "import_info list"
  v_classes :: "class_info list"
  v_functions :: "func_info list"
  v_variables :: "variable_info list"

text \<open>\<^verbatim>\<open>PythonASTVisitor.__init__\<close>.\<close>

definition new_visitor :: "string \<Rightarrow> visitor" where
  "new_visitor source_code =
     \<lparr>v_source_lines = splitlines source_code, v_imports = [], v_classes = [],
      v_functions = [], v_variables = []\<rparr>"

text \<open>
  The result of \<^verbatim>\<open>parse_python_file\<close>: either the four lists, or \<^verbatim>\<open>'error'\<close> alone;
  \<^verbatim>\<open>'file_path'\<close> is always there.
\<close>

record file_structure =
  file_path :: string
  fs_imports :: "import_info list option"
  fs_classes :: "class_info list option"
  fs_functions :: "func_info list option"
  fs_variables :: "variable_info list option"
  fs_error :: "string option"

record repo_structure =
  repo_path :: string
  files :: "file_structure list"

text \<open>
  A chunk of \<^verbatim>\<open>extract_chunks\<close>. \<^verbatim>\<open>'class_name'\<close> is a key of method chunks only,
  \<^verbatim>\<open>'params'\<close> and \<^verbatim>\<open>'returns'\<close> of method and function chunks only; \<open>ch_returns\<close> is
  \<open>None\<close> also where the key holds Python's \<^verbatim>\<open>None\<close>.
\<close>

record chunk =
  ch_id :: string
  ch_type :: string
  ch_name :: string
  ch_class_name :: "string option"
  ch_file_path :: string
  ch_content :: string
  ch_docstring :: string
  ch_line_range :: "int \<times> int"
  ch_params :: "param_info list option"
  ch_returns :: "string option"

section \<open>Building the records\<close>

text \<open>\<^verbatim>\<open>PythonASTVisitor._get_name\<close>.\<close>

fun get_name :: "string list \<Rightarrow> node \<Rightarrow> exn + string" where
  "get_name sl (Name a ident) = Inr ident"
| "get_name sl (Attribute a v attr) =
     try_bind (get_name sl v) (\<lambda>s. Inr (s @ ''.'' @ attr))"
| "get_name sl (Call a func args keywords) = get_name sl func"
| "get_name sl node = get_node_source sl node"

text \<open>
  \<^verbatim>\<open>PythonASTVisitor._extract_parameters\<close>. \<open>arg_params\<close> is its first loop, over
  \<^verbatim>\<open>node.args.args\<close>; \<open>apply_defaults\<close> is its second, over \<^verbatim>\<open>enumerate(defaults)\<close>,
  with the index \<open>i\<close>.
\<close>

fun arg_param :: "string list \<Rightarrow> node \<Rightarrow> exn + param_info" where
  "arg_param sl (Arg a name annotation) =
     (case annotation of
        Some ann \<Rightarrow>
          try_bind (get_node_source sl ann) (\<lambda>t.
          Inr \<lparr>p_name = name, p_type = Some t, p_default = None\<rparr>)
      | None \<Rightarrow> Inr \<lparr>p_name = name, p_type = None, p_default = None\<rparr>)"
| "arg_param sl node = Inl (AttributeError ''object has no attribute 'arg' '')"

fun arg_params :: "string list \<Rightarrow> node list \<Rightarrow> exn + param_info list" where
  "arg_params sl [] = Inr []"
| "arg_params sl (arg # rest) =
     try_bind (arg_param sl arg) (\<lambda>param_info.
     try_bind (arg_params sl rest) (\<lambda>params.
     Inr (param_info # params)))"

fun apply_defaults ::
  "string list \<Rightarrow> int \<Rightarrow> int \<Rightarrow> node list \<Rightarrow> param_info list \<Rightarrow> exn + param_info list" where
  "apply_defaults sl default_offset i [] params = Inr params"
| "apply_defaults sl default_offset i (dflt # rest) params =
     try_bind (get_node_source sl dflt) (\<lambda>s.
     try_bind (py_update params (default_offset + i) (\<lambda>p. p\<lparr>p_default := Some s\<rparr>))
       (\<lambda>params'.
     apply_defaults sl default_offset (i + 1) rest params'))"

fun extract_parameters :: "string list \<Rightarrow> node \<Rightarrow> exn + param_info list" where
  "extract_parameters sl
     (FunctionDef a name (Arguments posonly args vararg kwonly kw_defaults kwarg defaults)
        body decs returns) =
     try_bind (arg_params sl args) (\<lambda>params.
     if defaults \<noteq> [] then
       apply_defaults sl (int (length args) - int (length defaults)) 0 defaults params
     else Inr params)"
| "extract_parameters sl node = Inl (AttributeError ''object has no attribute 'args' '')"

text \<open>
  The test \<^verbatim>\<open>if docstring:\<close> on the result of \<^verbatim>\<open>ast.get_docstring\<close>: the key is set for
  a docstring that is not empty.
\<close>

definition docstring_key :: "string option \<Rightarrow> string option" where
  "docstring_key d = (case d of Some s \<Rightarrow> if s = [] then None else Some s | None \<Rightarrow> None)"

text \<open>
  \<^verbatim>\<open>PythonASTVisitor._process_function\<close>. \<open>get_docstring\<close> stands for the library's
  \<^verbatim>\<open>ast.get_docstring\<close>.
\<close>

fun process_function ::
  "(node \<Rightarrow> string option) \<Rightarrow> string list \<Rightarrow> node \<Rightarrow> exn + func_info" where
  "process_function get_docstring sl (FunctionDef a name args body decs returns) =
     (let node = FunctionDef a name args body decs returns in
      try_bind (get_lineno node) (\<lambda>ln.
      try_bind (get_end_line node) (\<lambda>el.
      try_bind (get_node_source sl node) (\<lambda>content.
      try_bind (extract_parameters sl node) (\<lambda>params.
      try_bind (case returns of
                  Some r \<Rightarrow> try_bind (get_node_source sl r) (\<lambda>s. Inr (Some s))
                | None \<Rightarrow> Inr None) (\<lambda>rets.
      Inr \<lparr>f_name = name, f_line_range = (ln, el), f_content = content,
           f_docstring = docstring_key (get_docstring node), f_params = params,
           f_returns = rets\<rparr>))))))"
| "process_function get_docstring sl node =
     Inl (AttributeError ''object has no attribute 'name' '')"

text \<open>\<^verbatim>\<open>isinstance(item, ast.FunctionDef)\<close>.\<close>

fun is_FunctionDef :: "node \<Rightarrow> bool" where
  "is_FunctionDef (FunctionDef a name args body decs returns) = True"
| "is_FunctionDef node = False"

text \<open>\<^verbatim>\<open>isinstance(target, ast.Name)\<close>.\<close>

fun is_Name :: "node \<Rightarrow> bool" where
  "is_Name (Name a ident) = True"
| "is_Name node = False"

text \<open>The loop of \<^verbatim>\<open>visit_ClassDef\<close> over \<^verbatim>\<open>node.body\<close>.\<close>

fun class_methods ::
  "(node \<Rightarrow> string option) \<Rightarrow> string list \<Rightarrow> node list \<Rightarrow> exn + func_info list" where
  "class_methods get_docstring sl [] = Inr []"
| "class_methods get_docstring sl (item # rest) =
     (if is_FunctionDef item then
        try_bind (process_function get_docstring sl item) (\<lambda>method_info.
        try_bind (class_methods get_docstring sl rest) (\<lambda>methods.
        Inr (method_info # methods)))
      else class_methods get_docstring sl rest)"

text \<open>The comprehension \<^verbatim>\<open>[self._get_name(base) for base in node.bases]\<close>.\<close>

fun base_names :: "string list \<Rightarrow> node list \<Rightarrow> exn + string list" where
  "base_names sl [] = Inr []"
| "base_names sl (base # rest) =
     try_bind (get_name sl base) (\<lambda>s.
     try_bind (base_names sl rest) (\<lambda>ss.
     Inr (s # ss)))"

section \<open>The visitor\<close>

text \<open>
  Each \<^verbatim>\<open>visit_X\<close> below is the method of that name up to its last statement,
  \<^verbatim>\<open>self.generic_visit(node)\<close>, which \<open>visit\<close> adds.
\<close>

text \<open>\<^verbatim>\<open>visit_Import\<close>: one record per alias in \<^verbatim>\<open>node.names\<close>.\<close>

fun import_records :: "node \<Rightarrow> node list \<Rightarrow> exn + import_info list" where
  "import_records node [] = Inr []"
| "import_records node (Alias a name asname # rest) =
     try_bind (get_lineno node) (\<lambda>ln.
     try_bind (import_records node rest) (\<lambda>records.
     Inr (\<lparr>imp_name = name, imp_alias = asname, imp_line = ln\<rparr> # records)))"
| "import_records node (other # rest) =
     Inl (AttributeError ''object has no attribute 'name' '')"

fun visit_Import :: "node \<Rightarrow> visitor \<Rightarrow> exn + visitor" where
  "visit_Import (Import a names) v =
     try_bind (import_records (Import a names) names) (\<lambda>records.
     Inr (v\<lparr>v_imports := v_imports v @ records\<rparr>))"
| "visit_Import node v = Inl (AttributeError ''object has no attribute 'names' '')"

text \<open>
  \<^verbatim>\<open>visit_ImportFrom\<close>: the name is \<^verbatim>\<open>module.name\<close> for a module that is neither \<^verbatim>\<open>None\<close>
  nor empty.
\<close>

fun import_from_records ::
  "node \<Rightarrow> string option \<Rightarrow> node list \<Rightarrow> exn + import_info list" where
  "import_from_records node module [] = Inr []"
| "import_from_records node module (Alias a name asname # rest) =
     try_bind (get_lineno node) (\<lambda>ln.
     try_bind (import_from_records node module rest) (\<lambda>records.
     Inr (\<lparr>imp_name = (case module of
                          Some m \<Rightarrow> if m \<noteq> [] then m @ ''.'' @ name else name
                        | None \<Rightarrow> name),
           imp_alias = asname, imp_line = ln\<rparr> # records)))"
| "import_from_records node module (other # rest) =
     Inl (AttributeError ''object has no attribute 'name' '')"

fun visit_ImportFrom :: "node \<Rightarrow> visitor \<Rightarrow> exn + visitor" where
  "visit_ImportFrom (ImportFrom a module names) v =
     try_bind (import_from_records (ImportFrom a module names) module names) (\<lambda>records.
     Inr (v\<lparr>v_imports := v_imports v @ records\<rparr>))"
| "visit_ImportFrom node v = Inl (AttributeError ''object has no attribute 'module' '')"

text \<open>\<^verbatim>\<open>visit_ClassDef\<close>.\<close>

fun visit_ClassDef :: "(node \<Rightarrow> string option) \<Rightarrow> node \<Rightarrow> visitor \<Rightarrow> exn + visitor" where
  "visit_ClassDef get_docstring (ClassDef a name bases keywords body decs) v =
     (let node = ClassDef a name bases keywords body decs in
      try_bind (get_lineno node) (\<lambda>ln.
      try_bind (get_end_line node) (\<lambda>el.
      try_bind (get_node_source (v_source_lines v) node) (\<lambda>content.
      try_bind (if bases \<noteq> [] then
                  try_bind (base_names (v_source_lines v) bases) (\<lambda>bs. Inr (Some bs))
                else Inr None) (\<lambda>base_key.
      try_bind (class_methods get_docstring (v_source_lines v) body) (\<lambda>methods.
      Inr (v\<lparr>v_classes := v_classes v @
             [\<lparr>c_name = name, c_line_range = (ln, el), c_methods = methods,
               c_content = content, c_docstring = docstring_key (get_docstring node),
               c_bases = base_key\<rparr>]\<rparr>)))))))"
| "visit_ClassDef get_docstring node v =
     Inl (AttributeError ''object has no attribute 'name' '')"

text \<open>\<^verbatim>\<open>visit_FunctionDef\<close>.\<close>

definition visit_FunctionDef ::
  "(node \<Rightarrow> string option) \<Rightarrow> node \<Rightarrow> visitor \<Rightarrow> exn + visitor" where
  "visit_FunctionDef get_docstring node v =
     try_bind (process_function get_docstring (v_source_lines v) node) (\<lambda>func_info.
     Inr (v\<lparr>v_functions := v_functions v @ [func_info]\<rparr>))"

text \<open>\<^verbatim>\<open>visit_Assign\<close>: one record per target that is a \<^verbatim>\<open>Name\<close>.\<close>

fun assign_records ::
  "string list \<Rightarrow> node \<Rightarrow> node \<Rightarrow> node list \<Rightarrow> exn + variable_info list" where
  "assign_records sl node val [] = Inr []"
| "assign_records sl node val (Name a ident # rest) =
     try_bind (get_lineno node) (\<lambda>ln.
     try_bind (get_node_source sl val) (\<lambda>s.
     try_bind (assign_records sl node val rest) (\<lambda>records.
     Inr (\<lparr>var_name = ident, var_line = ln, var_value = s\<rparr> # records))))"
| "assign_records sl node val (target # rest) = assign_records sl node val rest"

fun visit_Assign :: "node \<Rightarrow> visitor \<Rightarrow> exn + visitor" where
  "visit_Assign (Assign a targets val) v =
     try_bind (assign_records (v_source_lines v) (Assign a targets val) val targets)
       (\<lambda>records.
     Inr (v\<lparr>v_variables := v_variables v @ records\<rparr>))"
| "visit_Assign node v = Inl (AttributeError ''object has no attribute 'targets' '')"

text \<open>
  \<^verbatim>\<open>NodeVisitor.visit\<close> picks the method \<^verbatim>\<open>visit_\<close> followed by the node's class name,
  and \<^verbatim>\<open>generic_visit\<close> where the visitor has none: the visitor has the five methods
  above, and none for \<^verbatim>\<open>AsyncFunctionDef\<close>. \<open>visit_nodes\<close> is the loop of
  \<^verbatim>\<open>generic_visit\<close> over the child nodes.
\<close>

function visit :: "(node \<Rightarrow> string option) \<Rightarrow> node \<Rightarrow> visitor \<Rightarrow> exn + visitor"
  and visit_nodes :: "(node \<Rightarrow> string option) \<Rightarrow> node list \<Rightarrow> visitor \<Rightarrow> exn + visitor"
  where
  "visit get_docstring node v =
     (case node of
        Import a names \<Rightarrow>
          try_bind (visit_Import node v)
            (\<lambda>v'. visit_nodes get_docstring (iter_child_nodes node) v')
      | ImportFrom a module names \<Rightarrow>
          try_bind (visit_ImportFrom node v)
            (\<lambda>v'. visit_nodes get_docstring (iter_child_nodes node) v')
      | ClassDef a name bases keywords body decs \<Rightarrow>
          try_bind (visit_ClassDef get_docstring node v)
            (\<lambda>v'. visit_nodes get_docstring (iter_child_nodes node) v')
      | FunctionDef a name args body decs returns \<Rightarrow>
          try_bind (visit_FunctionDef get_docstring node v)
            (\<lambda>v'. visit_nodes get_docstring (iter_child_nodes node) v')
      | Assign a targets val \<Rightarrow>
          try_bind (visit_Assign node v)
            (\<lambda>v'. visit_nodes get_docstring (iter_child_nodes node) v')
      | _ \<Rightarrow> visit_nodes get_docstring (iter_child_nodes node) v)"
| "visit_nodes get_docstring [] v = Inr v"
| "visit_nodes get_docstring (child # rest) v =
     try_bind (visit get_docstring child v) (\<lambda>v'. visit_nodes get_docstring rest v')"
  by pat_completeness auto
termination
proof (relation "measure (\<lambda>x. case x of Inl (g, n, v) \<Rightarrow> 2 * size n + 1
                                   | Inr (g, cs, v) \<Rightarrow> 2 * size_list size cs)")
qed (simp_all del: iter_child_nodes.simps node.size add: size_children_twice)

text \<open>
  \<^verbatim>\<open>PythonASTVisitor.filter_methods_from_functions\<close>: the set of the methods'
  \<^verbatim>\<open>(name, line_range)\<close> pairs, then the comprehension over \<^verbatim>\<open>self.functions\<close>.
\<close>

definition method_signatures :: "class_info list \<Rightarrow> (string \<times> int \<times> int) set" where
  "method_signatures cs =
     fold (\<lambda>class_info sigs.
             fold (\<lambda>method sigs'. insert (f_name method, f_line_range method) sigs')
               (c_methods class_info) sigs)
       cs {}"

definition filter_methods_from_functions :: "visitor \<Rightarrow> visitor" where
  "filter_methods_from_functions v =
     v\<lparr>v_functions :=
         [func \<leftarrow> v_functions v.
            (f_name func, f_line_range func) \<notin> method_signatures (v_classes v)]\<rparr>"

section \<open>The service\<close>

text \<open>
  \<^verbatim>\<open>CodeParserService.parse_python_file\<close>. \<open>read_file\<close> stands for opening and reading the
  file and \<open>ast_parse\<close> for the library's \<^verbatim>\<open>ast.parse\<close>; either may raise.
  \<open>analyse_file\<close> is the body of the \<^verbatim>\<open>try\<close> up to the \<^verbatim>\<open>return\<close>, and the case on its
  result is the \<^verbatim>\<open>except Exception\<close>.
\<close>

definition analyse_file ::
  "(string \<Rightarrow> exn + string) \<Rightarrow> (string \<Rightarrow> exn + node) \<Rightarrow> (node \<Rightarrow> string option) \<Rightarrow>
   string \<Rightarrow> exn + visitor" where
  "analyse_file read_file ast_parse get_docstring path =
     try_bind (read_file path) (\<lambda>content.
     try_bind (ast_parse content) (\<lambda>tree.
     try_bind (visit get_docstring tree (new_visitor content)) (\<lambda>visitor.
     Inr (filter_methods_from_functions visitor))))"

definition parse_python_file ::
  "(string \<Rightarrow> exn + string) \<Rightarrow> (string \<Rightarrow> exn + node) \<Rightarrow> (node \<Rightarrow> string option) \<Rightarrow>
   string \<Rightarrow> file_structure" where
  "parse_python_file read_file ast_parse get_docstring path =
     (case analyse_file read_file ast_parse get_docstring path of
        Inr visitor \<Rightarrow>
          \<lparr>file_path = path,
           fs_imports = Some (v_imports visitor),
           fs_classes = Some (v_classes visitor),
           fs_functions = Some (v_functions visitor),
           fs_variables = Some (v_variables visitor),
           fs_error = None\<rparr>
      | Inl e \<Rightarrow>
          \<lparr>file_path = path, fs_imports = None, fs_classes = None, fs_functions = None,
           fs_variables = None, fs_error = Some (str_exn e)\<rparr>)"


text \<open>\<^verbatim>\<open>d.get(key, [])\<close> on a key that holds a list.\<close>

definition get_list :: "'a list option \<Rightarrow> 'a list" where
  "get_list x = (case x of Some xs \<Rightarrow> xs | None \<Rightarrow> [])"

text \<open>\<^verbatim>\<open>d.get('docstring', '')\<close>.\<close>

definition get_str :: "string option \<Rightarrow> string" where
  "get_str x = (case x of Some s \<Rightarrow> s | None \<Rightarrow> [])"

text \<open>The three dictionaries that \<^verbatim>\<open>extract_chunks\<close> builds.\<close>

definition class_chunk :: "string \<Rightarrow> class_info \<Rightarrow> chunk" where
  "class_chunk path class_info =
     \<lparr>ch_id = path @ '':class:'' @ c_name class_info,
      ch_type = ''class'',
      ch_name = c_name class_info,
      ch_class_name = None,
      ch_file_path = path,
      ch_content = c_content class_info,
      ch_docstring = get_str (c_docstring class_info),
      ch_line_range = c_line_range class_info,
      ch_params = None,
      ch_returns = None\<rparr>"

definition method_chunk :: "string \<Rightarrow> class_info \<Rightarrow> func_info \<Rightarrow> chunk" where
  "method_chunk path class_info method =
     \<lparr>ch_id = path @ '':method:'' @ c_name class_info @ ''.'' @ f_name method,
      ch_type = ''method'',
      ch_name = f_name method,
      ch_class_name = Some (c_name class_info),
      ch_file_path = path,
      ch_content = f_content method,
      ch_docstring = get_str (f_docstring method),
      ch_line_range = f_line_range method,
      ch_params = Some (f_params method),
      ch_returns = f_returns method\<rparr>"

definition func_chunk :: "string \<Rightarrow> func_info \<Rightarrow> chunk" where
  "func_chunk path func =
     \<lparr>ch_id = path @ '':function:'' @ f_name func,
      ch_type = ''function'',
      ch_name = f_name func,
      ch_class_name = None,
      ch_file_path = path,
      ch_content = f_content func,
      ch_docstring = get_str (f_docstring func),
      ch_line_range = f_line_range func,
      ch_params = Some (f_params func),
      ch_returns = f_returns func\<rparr>"

text \<open>
  \<^verbatim>\<open>CodeParserService.extract_chunks\<close>: the loop over the classes, each with its inner
  loop over the methods, then the loop over the functions, all appending to \<^verbatim>\<open>chunks\<close>.
\<close>

definition extract_chunks :: "file_structure \<Rightarrow> chunk list" where
  "extract_chunks file_structure =
     (let chunks = [];
          path = file_path file_structure;
          chunks =
            fold (\<lambda>class_info chunks.
                    fold (\<lambda>method chunks'. chunks' @ [method_chunk path class_info method])
                      (c_methods class_info)
                      (chunks @ [class_chunk path class_info]))
              (get_list (fs_classes file_structure)) chunks;
          chunks =
            fold (\<lambda>func chunks. chunks @ [func_chunk path func])
              (get_list (fs_functions file_structure)) chunks
      in chunks)"

text \<open>
  The loop of \<^verbatim>\<open>DocumentationService.process_repository\<close> over the files of a repository:
  \<^verbatim>\<open>all_chunks.extend(code_parser.extract_chunks(file_structure))\<close>.
\<close>

definition all_chunks :: "repo_structure \<Rightarrow> chunk list" where
  "all_chunks repo_structure =
     fold (\<lambda>file_structure chunks. chunks @ extract_chunks file_structure)
       (files repo_structure) []"

section \<open>Chunk extraction\<close>

lemma fold_append_each: "fold (\<lambda>x acc. acc @ [g x]) xs acc = acc @ map g xs"
  by (induction xs arbitrary: acc) simp_all

lemma fold_append_lists: "fold (\<lambda>x acc. acc @ g x) xs acc = acc @ concat (map g xs)"
  by (induction xs arbitrary: acc) simp_all

lemma class_loop:
  "fold (\<lambda>class_info chunks.
            fold (\<lambda>method chunks'. chunks' @ [method_chunk path class_info method])
              (c_methods class_info) (chunks @ [class_chunk path class_info]))
     cs acc
   = acc @ concat (map (\<lambda>c. class_chunk path c # map (method_chunk path c) (c_methods c)) cs)"
  by (induction cs arbitrary: acc) (simp_all add: fold_append_each)

lemma extract_chunks_eq:
  "extract_chunks fs =
     concat (map (\<lambda>c. class_chunk (file_path fs) c
                        # map (method_chunk (file_path fs) c) (c_methods c))
               (get_list (fs_classes fs)))
     @ map (func_chunk (file_path fs)) (get_list (fs_functions fs))"
  unfolding extract_chunks_def Let_def class_loop by (simp add: fold_append_each)

lemma all_chunks_eq: "all_chunks r = concat (map extract_chunks (files r))"
  by (simp add: all_chunks_def fold_append_lists)

lemma length_concat_classes:
  "length (concat (map (\<lambda>c. class_chunk p c # map (method_chunk p c) (c_methods c)) cs))
   = length cs + sum_list (map (\<lambda>c. length (c_methods c)) cs)"
  by (induction cs) simp_all

text \<open>
  Claim C6. The chunks of a file structure are, class by class in list order, the class
  chunk followed at once by the method chunks of that class in method order (each with
  the name of its class), and after all classes the function chunks in list order; a
  missing \<^verbatim>\<open>'classes'\<close> or \<^verbatim>\<open>'functions'\<close> key counts as the empty list. Each chunk is
  written out with all its keys. The number of chunks is the number of classes plus the
  number of all methods plus the number of functions.
\<close>

theorem extract_chunks_order:
  "extract_chunks fs =
     (let path = file_path fs;
          cs = (case fs_classes fs of Some classes \<Rightarrow> classes | None \<Rightarrow> []);
          fns = (case fs_functions fs of Some functions \<Rightarrow> functions | None \<Rightarrow> [])
      in concat (map (\<lambda>c.
           \<lparr>ch_id = path @ '':class:'' @ c_name c, ch_type = ''class'', ch_name = c_name c,
            ch_class_name = None, ch_file_path = path, ch_content = c_content c,
            ch_docstring = (case c_docstring c of Some d \<Rightarrow> d | None \<Rightarrow> ''''),
            ch_line_range = c_line_range c, ch_params = None, ch_returns = None\<rparr>
           # map (\<lambda>m.
               \<lparr>ch_id = path @ '':method:'' @ c_name c @ ''.'' @ f_name m,
                ch_type = ''method'', ch_name = f_name m, ch_class_name = Some (c_name c),
                ch_file_path = path, ch_content = f_content m,
                ch_docstring = (case f_docstring m of Some d \<Rightarrow> d | None \<Rightarrow> ''''),
                ch_line_range = f_line_range m, ch_params = Some (f_params m),
                ch_returns = f_returns m\<rparr>)
             (c_methods c)) cs)
         @ map (\<lambda>f.
             \<lparr>ch_id = path @ '':function:'' @ f_name f, ch_type = ''function'',
              ch_name = f_name f, ch_class_name = None, ch_file_path = path,
              ch_content = f_content f,
              ch_docstring = (case f_docstring f of Some d \<Rightarrow> d | None \<Rightarrow> ''''),
              ch_line_range = f_line_range f, ch_params = Some (f_params f),
              ch_returns = f_returns f\<rparr>) fns)
   \<and> length (extract_chunks fs) =
       length (case fs_classes fs of Some classes \<Rightarrow> classes | None \<Rightarrow> [])
       + sum_list (map (\<lambda>c. length (c_methods c))
           (case fs_classes fs of Some classes \<Rightarrow> classes | None \<Rightarrow> []))
       + length (case fs_functions fs of Some functions \<Rightarrow> functions | None \<Rightarrow> [])"
proof (intro conjI)
  show "length (extract_chunks fs) =
       length (case fs_classes fs of Some classes \<Rightarrow> classes | None \<Rightarrow> [])
       + sum_list (map (\<lambda>c. length (c_methods c))
           (case fs_classes fs of Some classes \<Rightarrow> classes | None \<Rightarrow> []))
       + length (case fs_functions fs of Some functions \<Rightarrow> functions | None \<Rightarrow> [])"
    unfolding extract_chunks_eq
    by (simp only: length_append length_concat_classes length_map get_list_def)
qed (simp add: extract_chunks_eq class_chunk_def method_chunk_def [abs_def]
       func_chunk_def [abs_def] get_list_def get_str_def Let_def)

text \<open>
  Two classes, the first with two methods, and two functions: six chunks, each class
  followed at once by its methods, the functions last, all in list order.
\<close>

definition demo_method :: "string \<Rightarrow> int \<Rightarrow> func_info" where
  "demo_method name line =
     \<lparr>f_name = name, f_line_range = (line, line), f_content = ''def '' @ name @ ''(): pass'',
      f_docstring = None, f_params = [], f_returns = None\<rparr>"

definition demo_structure :: file_structure where
  "demo_structure =
     \<lparr>file_path = ''a.py'', fs_imports = Some [],
      fs_classes = Some
        [\<lparr>c_name = ''A'', c_line_range = (1, 3),
          c_methods = [demo_method ''m1'' 2, demo_method ''m2'' 3],
          c_content = ''class A: ...'', c_docstring = Some ''doc'', c_bases = None\<rparr>,
         \<lparr>c_name = ''B'', c_line_range = (4, 4), c_methods = [],
          c_content = ''class B: pass'', c_docstring = None, c_bases = None\<rparr>],
      fs_functions = Some [demo_method ''g'' 5, demo_method ''f'' 6],
      fs_variables = Some [], fs_error = None\<rparr>"

theorem extract_chunks_order_witness:
  "map ch_id (extract_chunks demo_structure) =
     [''a.py:class:A'', ''a.py:method:A.m1'', ''a.py:method:A.m2'', ''a.py:class:B'',
      ''a.py:function:g'', ''a.py:function:f'']
   \<and> map ch_type (extract_chunks demo_structure) =
     [''class'', ''method'', ''method'', ''class'', ''function'', ''function'']
   \<and> map ch_class_name (extract_chunks demo_structure) =
     [None, Some ''A'', Some ''A'', None, None, None]
   \<and> map ch_line_range (extract_chunks demo_structure) =
     [(1, 3), (2, 2), (3, 3), (4, 4), (5, 5), (6, 6)]
   \<and> length (extract_chunks demo_structure) = 6"
proof -
  note eq = extract_chunks_order [of demo_structure, THEN conjunct1]
  show ?thesis
    unfolding eq by (simp add: demo_structure_def demo_method_def Let_def)
qed

text \<open>
  Claim C9. On the record that \<^verbatim>\<open>parse_python_file\<close> returns for a file it could not
  analyse (the path and the error message, no list), \<^verbatim>\<open>extract_chunks\<close> returns the empty
  list; such a record among the files of a repository adds no chunk to the run.
\<close>

theorem extract_chunks_of_failure:
  "extract_chunks \<lparr>file_path = p, fs_imports = None, fs_classes = None, fs_functions = None,
                   fs_variables = None, fs_error = Some msg\<rparr> = []
   \<and> all_chunks \<lparr>repo_path = r, files = before @
        [\<lparr>file_path = p, fs_imports = None, fs_classes = None, fs_functions = None,
          fs_variables = None, fs_error = Some msg\<rparr>] @ after\<rparr>
     = all_chunks \<lparr>repo_path = r, files = before @ after\<rparr>"
  by (simp add: all_chunks_eq extract_chunks_eq get_list_def)

section \<open>The effect of the traversal\<close>

text \<open>
  The nodes of a tree in the order in which \<^verbatim>\<open>visit\<close> reaches them: a node, then the
  subtrees of its child nodes from left to right.
\<close>

function subnodes :: "node \<Rightarrow> node list"
  and subnodes_list :: "node list \<Rightarrow> node list" where
  "subnodes node = node # subnodes_list (iter_child_nodes node)"
| "subnodes_list [] = []"
| "subnodes_list (child # rest) = subnodes child @ subnodes_list rest"
  by pat_completeness auto
termination
proof (relation "measure (\<lambda>x. case x of Inl n \<Rightarrow> 2 * size n + 1
                                   | Inr cs \<Rightarrow> 2 * size_list size cs)")
qed (simp_all del: iter_child_nodes.simps node.size add: size_children_twice)

lemma try_bind_Inr:
  "try_bind m f = Inr y \<longleftrightarrow> (\<exists>x. m = Inr x \<and> f x = Inr y)"
  by (cases m) (simp_all add: try_bind_def)

lemma try_bind_simps [simp]:
  "try_bind (Inl e) f = Inl e" "try_bind (Inr x) f = f x"
  by (simp_all add: try_bind_def)

declare visit.simps [simp del]

definition visit_own :: "(node \<Rightarrow> string option) \<Rightarrow> node \<Rightarrow> visitor \<Rightarrow> exn + visitor" where
  "visit_own gd node v =
     (case node of
        Import a names \<Rightarrow> visit_Import node v
      | ImportFrom a module names \<Rightarrow> visit_ImportFrom node v
      | ClassDef a name bases keywords body decs \<Rightarrow> visit_ClassDef gd node v
      | FunctionDef a name args body decs returns \<Rightarrow> visit_FunctionDef gd node v
      | Assign a targets val \<Rightarrow> visit_Assign node v
      | _ \<Rightarrow> Inr v)"

lemma visit_unfold:
  "visit gd node v =
     try_bind (visit_own gd node v) (\<lambda>v'. visit_nodes gd (iter_child_nodes node) v')"
  by (cases node) (simp_all add: visit.simps visit_own_def del: iter_child_nodes.simps)

definition blank :: "string list \<Rightarrow> visitor" where
  "blank sl = \<lparr>v_source_lines = sl, v_imports = [], v_classes = [], v_functions = [],
              v_variables = []\<rparr>"

definition own :: "(node \<Rightarrow> string option) \<Rightarrow> string list \<Rightarrow> node \<Rightarrow> visitor" where
  "own gd sl node = (case visit_own gd node (blank sl) of Inr v \<Rightarrow> v | Inl e \<Rightarrow> blank sl)"

definition appended ::
  "(node \<Rightarrow> string option) \<Rightarrow> node list \<Rightarrow> visitor \<Rightarrow> visitor" where
  "appended gd ns v =
     v\<lparr>v_imports := v_imports v @ concat (map (\<lambda>n. v_imports (own gd (v_source_lines v) n)) ns),
       v_classes := v_classes v @ concat (map (\<lambda>n. v_classes (own gd (v_source_lines v) n)) ns),
       v_functions :=
         v_functions v @ concat (map (\<lambda>n. v_functions (own gd (v_source_lines v) n)) ns),
       v_variables :=
         v_variables v @ concat (map (\<lambda>n. v_variables (own gd (v_source_lines v) n)) ns)\<rparr>"

lemma appended_Nil [simp]: "appended gd [] v = v"
  by (simp add: appended_def)

lemma appended_append: "appended gd (xs @ ys) v = appended gd ys (appended gd xs v)"
  by (simp add: appended_def)

lemma visit_own_effect:
  assumes "visit_own gd node v = Inr v1"
  shows "v1 = appended gd [node] v"
proof (cases node)
  case (Import a names)
  with assms show ?thesis
    by (auto simp: visit_own_def own_def appended_def blank_def try_bind_Inr)
next
  case (ImportFrom a module names)
  with assms show ?thesis
    by (auto simp: visit_own_def own_def appended_def blank_def try_bind_Inr)
next
  case (ClassDef a name bases kws body decs)
  with assms show ?thesis
    by (auto simp: visit_own_def own_def appended_def blank_def try_bind_Inr Let_def)
next
  case (FunctionDef a name args body decs returns)
  with assms show ?thesis
    by (auto simp: visit_own_def own_def appended_def blank_def try_bind_Inr
          visit_FunctionDef_def)
next
  case (Assign a targets val)
  with assms show ?thesis
    by (auto simp: visit_own_def own_def appended_def blank_def try_bind_Inr)
qed (use assms in \<open>simp_all add: visit_own_def own_def appended_def blank_def\<close>)

declare subnodes.simps [simp del]

lemma appended_source_lines [simp]: "v_source_lines (appended gd ns v) = v_source_lines v"
  by (simp add: appended_def)

lemma visit_effect:
  "visit gd node v = Inr v' \<Longrightarrow> v' = appended gd (subnodes node) v"
  "visit_nodes gd cs v = Inr v' \<Longrightarrow> v' = appended gd (subnodes_list cs) v"
proof (induction gd node v and gd cs v arbitrary: v' and v' rule: visit_visit_nodes.induct)
  case (1 gd node v)
  from "1.prems" obtain v1 where
    own: "visit_own gd node v = Inr v1" and
    rest: "visit_nodes gd (iter_child_nodes node) v1 = Inr v'"
    unfolding visit_unfold try_bind_Inr by blast
  have v1: "v1 = appended gd [node] v"
    by (rule visit_own_effect [OF own])
  have same: "v1 = v" if "visit_own gd node v = Inr v" using that own by simp
  have "v' = appended gd (subnodes_list (iter_child_nodes node)) v1"
  proof (cases node)
    case (Module b)
    then have "v1 = v" using own by (simp add: visit_own_def)
    with "1.IH"(1) [OF Module] rest show ?thesis by simp
  next
    case (Import a names)
    from "1.IH"(2) [OF this rest] show ?thesis .
  next
    case (ImportFrom a m names)
    from "1.IH"(3) [OF this rest] show ?thesis .
  next
    case (Alias a n asn)
    then have "v1 = v" using own by (simp add: visit_own_def)
    with "1.IH"(4) [OF Alias] rest show ?thesis by simp
  next
    case (ClassDef a name bases kws body decs)
    from "1.IH"(5) [OF this rest] show ?thesis .
  next
    case (FunctionDef a name args body decs returns)
    from "1.IH"(6) [OF this rest] show ?thesis .
  next
    case (AsyncFunctionDef a name args body decs returns)
    then have "v1 = v" using own by (simp add: visit_own_def)
    with "1.IH"(7) [OF AsyncFunctionDef] rest show ?thesis by simp
  next
    case (Arguments p a va ko kd kw d)
    then have "v1 = v" using own by (simp add: visit_own_def)
    with "1.IH"(8) [OF Arguments] rest show ?thesis by simp
  next
    case (Arg a n ann)
    then have "v1 = v" using own by (simp add: visit_own_def)
    with "1.IH"(9) [OF Arg] rest show ?thesis by simp
  next
    case (Assign a targets val)
    from "1.IH"(10) [OF this rest] show ?thesis .
  next
    case (Name a i)
    then have "v1 = v" using own by (simp add: visit_own_def)
    with "1.IH"(11) [OF Name] rest show ?thesis by simp
  next
    case (Attribute a va at)
    then have "v1 = v" using own by (simp add: visit_own_def)
    with "1.IH"(12) [OF Attribute] rest show ?thesis by simp
  next
    case (Call a f as ks)
    then have "v1 = v" using own by (simp add: visit_own_def)
    with "1.IH"(13) [OF Call] rest show ?thesis by simp
  next
    case (Other a cs)
    then have "v1 = v" using own by (simp add: visit_own_def)
    with "1.IH"(14) [OF Other] rest show ?thesis by simp
  qed
  then have "v' = appended gd (subnodes_list (iter_child_nodes node)) (appended gd [node] v)"
    using v1 by simp
  also have "\<dots> = appended gd ([node] @ subnodes_list (iter_child_nodes node)) v"
    by (rule appended_append [symmetric])
  finally show ?case by (simp add: subnodes.simps del: iter_child_nodes.simps)
next
  case (2 gd v)
  then show ?case by simp
next
  case (3 gd child rest v)
  from "3.prems" obtain v1 where
    a: "visit gd child v = Inr v1" and b: "visit_nodes gd rest v1 = Inr v'"
    unfolding visit_nodes.simps try_bind_Inr by blast
  have "v' = appended gd (subnodes_list rest) (appended gd (subnodes child) v)"
    using "3.IH"(1) [OF a] "3.IH"(2) [OF b] by simp
  then show ?case by (simp add: appended_append)
qed

fun name_targets :: "node list \<Rightarrow> string list" where
  "name_targets [] = []"
| "name_targets (Name a ident # rest) = ident # name_targets rest"
| "name_targets (target # rest) = name_targets rest"

definition expected_variables :: "string list \<Rightarrow> node \<Rightarrow> variable_info list" where
  "expected_variables sl node =
     (case node of
        Assign a targets val \<Rightarrow>
          (case (lineno a, get_node_source sl val) of
             (Some ln, Inr s) \<Rightarrow>
               map (\<lambda>ident. \<lparr>var_name = ident, var_line = ln, var_value = s\<rparr>)
                 (name_targets targets)
           | _ \<Rightarrow> [])
      | _ \<Rightarrow> [])"


fun is_ClassDef :: "node \<Rightarrow> bool" where
  "is_ClassDef (ClassDef a name bases kws body decs) = True"
| "is_ClassDef node = False"

lemma assign_records_eq:
  "assign_records sl node val ts =
     (if name_targets ts = [] then Inr []
      else try_bind (get_lineno node) (\<lambda>ln.
           try_bind (get_node_source sl val) (\<lambda>s.
           Inr (map (\<lambda>ident. \<lparr>var_name = ident, var_line = ln, var_value = s\<rparr>)
                  (name_targets ts)))))"
proof (induction ts rule: name_targets.induct)
  case (2 a' ident rest)
  then show ?case
    by (cases "get_lineno node"; cases "get_node_source sl val") simp_all
qed simp_all




definition own_ok :: "(node \<Rightarrow> string option) \<Rightarrow> string list \<Rightarrow> node \<Rightarrow> bool" where
  "own_ok gd sl node \<longleftrightarrow> (\<exists>w. visit_own gd node (blank sl) = Inr w)"

lemma visit_own_blank:
  assumes "visit_own gd node v = Inr v1"
  shows "own_ok gd (v_source_lines v) node"
proof (cases node)
  case (Import a names)
  with assms show ?thesis
    by (auto simp: own_ok_def visit_own_def blank_def try_bind_Inr)
next
  case (ImportFrom a module names)
  with assms show ?thesis
    by (auto simp: own_ok_def visit_own_def blank_def try_bind_Inr)
next
  case (ClassDef a name bases kws body decs)
  with assms show ?thesis
    by (auto simp: own_ok_def visit_own_def blank_def try_bind_Inr Let_def)
next
  case (FunctionDef a name args body decs returns)
  with assms show ?thesis
    by (auto simp: own_ok_def visit_own_def blank_def try_bind_Inr visit_FunctionDef_def)
next
  case (Assign a targets val)
  with assms show ?thesis
    by (auto simp: own_ok_def visit_own_def blank_def try_bind_Inr)
qed (simp_all add: own_ok_def visit_own_def)

lemma visit_ok:
  "visit gd node v = Inr v' \<Longrightarrow> n \<in> set (subnodes node) \<Longrightarrow> own_ok gd (v_source_lines v) n"
  "visit_nodes gd cs v = Inr v' \<Longrightarrow> n \<in> set (subnodes_list cs) \<Longrightarrow>
     own_ok gd (v_source_lines v) n"
proof (induction node and cs arbitrary: v v' and v v' rule: subnodes_subnodes_list.induct)
  case (1 node)
  from "1.prems"(1) obtain v1 where
    own: "visit_own gd node v = Inr v1" and
    rest: "visit_nodes gd (iter_child_nodes node) v1 = Inr v'"
    unfolding visit_unfold try_bind_Inr by blast
  have sl: "v_source_lines v1 = v_source_lines v"
    using visit_own_effect [OF own] by simp
  from "1.prems"(2) have "n = node \<or> n \<in> set (subnodes_list (iter_child_nodes node))"
    by (simp add: subnodes.simps del: iter_child_nodes.simps)
  then show ?case
  proof
    assume "n = node"
    then show ?thesis using visit_own_blank [OF own] by simp
  next
    assume "n \<in> set (subnodes_list (iter_child_nodes node))"
    from "1.IH" [OF rest this] show ?thesis by (simp add: sl)
  qed
next
  case 2
  then show ?case by simp
next
  case (3 child rest)
  from "3.prems"(1) obtain v1 where
    a: "visit gd child v = Inr v1" and b: "visit_nodes gd rest v1 = Inr v'"
    unfolding visit_nodes.simps try_bind_Inr by blast
  have sl: "v_source_lines v1 = v_source_lines v"
    using visit_effect(1) [OF a] by simp
  from "3.prems"(2) have "n \<in> set (subnodes child) \<or> n \<in> set (subnodes_list rest)"
    by simp
  then show ?case
  proof
    assume "n \<in> set (subnodes child)"
    from "3.IH"(1) [OF a this] show ?thesis .
  next
    assume "n \<in> set (subnodes_list rest)"
    from "3.IH"(2) [OF b this] show ?thesis by (simp add: sl)
  qed
qed

text \<open>What the visit of one node adds to each list.\<close>

lemma own_functions:
  assumes "own_ok gd sl node"
  shows "(is_FunctionDef node \<longrightarrow>
            (\<exists>f. process_function gd sl node = Inr f \<and> v_functions (own gd sl node) = [f]))
         \<and> (\<not> is_FunctionDef node \<longrightarrow> v_functions (own gd sl node) = [])"
proof (cases node)
  case (Import a names)
  with assms show ?thesis
    by (auto simp: own_ok_def own_def visit_own_def blank_def try_bind_Inr)
next
  case (ImportFrom a module names)
  with assms show ?thesis
    by (auto simp: own_ok_def own_def visit_own_def blank_def try_bind_Inr)
next
  case (ClassDef a name bases kws body decs)
  with assms show ?thesis
    by (auto simp: own_ok_def own_def visit_own_def blank_def try_bind_Inr Let_def)
next
  case (FunctionDef a name args body decs returns)
  with assms show ?thesis
    by (auto simp: own_ok_def own_def visit_own_def blank_def try_bind_Inr
          visit_FunctionDef_def simp del: process_function.simps)
next
  case (Assign a targets val)
  with assms show ?thesis
    by (auto simp: own_ok_def own_def visit_own_def blank_def try_bind_Inr)
qed (simp_all add: own_def visit_own_def blank_def)

lemma list_all2_concat_filter:
  assumes "\<And>n. n \<in> set ns \<Longrightarrow> (P n \<longrightarrow> (\<exists>r. R n r \<and> g n = [r])) \<and> (\<not> P n \<longrightarrow> g n = [])"
  shows "list_all2 R (filter P ns) (concat (map g ns))"
  using assms
proof (induction ns)
  case Nil
  then show ?case by simp
next
  case (Cons n ns)
  then have tail: "list_all2 R (filter P ns) (concat (map g ns))" by simp
  from Cons.prems [of n] have
    "(P n \<longrightarrow> (\<exists>r. R n r \<and> g n = [r])) \<and> (\<not> P n \<longrightarrow> g n = [])" by simp
  with tail show ?case by (cases "P n") auto
qed

lemma visit_functions:
  assumes "visit gd tree v = Inr v'"
  shows "\<exists>fs. v_functions v' = v_functions v @ fs \<and>
           list_all2 (\<lambda>d f. process_function gd (v_source_lines v) d = Inr f)
             (filter is_FunctionDef (subnodes tree)) fs"
proof -
  let ?g = "\<lambda>n. v_functions (own gd (v_source_lines v) n)"
  have "v_functions v' = v_functions v @ concat (map ?g (subnodes tree))"
    using visit_effect(1) [OF assms] by (simp add: appended_def)
  moreover have "list_all2 (\<lambda>d f. process_function gd (v_source_lines v) d = Inr f)
      (filter is_FunctionDef (subnodes tree)) (concat (map ?g (subnodes tree)))"
    by (rule list_all2_concat_filter) (use own_functions visit_ok(1) [OF assms] in blast)
  ultimately show ?thesis by blast
qed


lemma own_variables:
  assumes "own_ok gd sl node"
  shows "v_variables (own gd sl node) = expected_variables sl node"
proof (cases node)
  case (Import a names)
  with assms show ?thesis
    by (auto simp: own_ok_def own_def visit_own_def blank_def try_bind_Inr
          expected_variables_def)
next
  case (ImportFrom a module names)
  with assms show ?thesis
    by (auto simp: own_ok_def own_def visit_own_def blank_def try_bind_Inr
          expected_variables_def)
next
  case (ClassDef a name bases kws body decs)
  with assms show ?thesis
    by (auto simp: own_ok_def own_def visit_own_def blank_def try_bind_Inr Let_def
          expected_variables_def)
next
  case (FunctionDef a name args body decs returns)
  with assms show ?thesis
    by (auto simp: own_ok_def own_def visit_own_def blank_def try_bind_Inr
          visit_FunctionDef_def expected_variables_def simp del: process_function.simps)
next
  case (Assign a targets val)
  with assms show ?thesis
    by (auto simp: own_ok_def own_def visit_own_def blank_def try_bind_Inr
          assign_records_eq expected_variables_def get_lineno_def
          split: if_splits option.splits sum.splits)
qed (simp_all add: own_def visit_own_def blank_def expected_variables_def)

lemma visit_variables:
  assumes "visit gd tree v = Inr v'"
  shows "v_variables v' =
         v_variables v @ concat (map (expected_variables (v_source_lines v)) (subnodes tree))"
proof -
  have eq: "map (\<lambda>n. v_variables (own gd (v_source_lines v) n)) (subnodes tree)
        = map (expected_variables (v_source_lines v)) (subnodes tree)"
    by (rule map_cong [OF refl]) (use own_variables visit_ok(1) [OF assms] in blast)
  have "v_variables v' = v_variables v
          @ concat (map (\<lambda>n. v_variables (own gd (v_source_lines v) n)) (subnodes tree))"
    using visit_effect(1) [OF assms] by (simp add: appended_def)
  then show ?thesis by (simp only: eq)
qed

lemma class_methods_all2:
  "class_methods gd sl body = Inr ms \<Longrightarrow>
   list_all2 (\<lambda>d m. process_function gd sl d = Inr m) (filter is_FunctionDef body) ms"
proof (induction body arbitrary: ms)
  case Nil
  then show ?case by simp
next
  case (Cons item rest)
  show ?case
  proof (cases "is_FunctionDef item")
    case True
    with Cons.prems obtain m ms' where
      "process_function gd sl item = Inr m" "class_methods gd sl rest = Inr ms'" "ms = m # ms'"
      by (auto simp: try_bind_Inr simp del: process_function.simps)
    with Cons.IH [of ms'] True show ?thesis by simp
  next
    case False
    with Cons show ?thesis by simp
  qed
qed

lemma own_classes:
  assumes "own_ok gd sl node" and "c \<in> set (v_classes (own gd sl node))"
  shows "\<exists>a name bases kws body decs.
           node = ClassDef a name bases kws body decs \<and> c_name c = name \<and>
           class_methods gd sl body = Inr (c_methods c)"
proof (cases node)
  case (Import a names)
  with assms show ?thesis
    by (auto simp: own_ok_def own_def visit_own_def blank_def try_bind_Inr)
next
  case (ImportFrom a module names)
  with assms show ?thesis
    by (auto simp: own_ok_def own_def visit_own_def blank_def try_bind_Inr)
next
  case (ClassDef a name bases kws body decs)
  with assms show ?thesis
    by (auto simp: own_ok_def own_def visit_own_def blank_def try_bind_Inr Let_def)
next
  case (FunctionDef a name args body decs returns)
  with assms show ?thesis
    by (auto simp: own_ok_def own_def visit_own_def blank_def try_bind_Inr
          visit_FunctionDef_def simp del: process_function.simps)
next
  case (Assign a targets val)
  with assms show ?thesis
    by (auto simp: own_ok_def own_def visit_own_def blank_def try_bind_Inr)
qed (use assms in \<open>simp_all add: own_def visit_own_def blank_def\<close>)

lemma visit_classes:
  assumes "visit gd tree v = Inr v'" and "c \<in> set (v_classes v')"
  shows "c \<in> set (v_classes v) \<or>
         (\<exists>a name bases kws body decs.
            ClassDef a name bases kws body decs \<in> set (subnodes tree) \<and> c_name c = name \<and>
            list_all2 (\<lambda>d m. process_function gd (v_source_lines v) d = Inr m)
              (filter is_FunctionDef body) (c_methods c))"
proof -
  from assms(2) visit_effect(1) [OF assms(1)] have
    "c \<in> set (v_classes v) \<or>
     (\<exists>n\<in>set (subnodes tree). c \<in> set (v_classes (own gd (v_source_lines v) n)))"
    by (auto simp: appended_def)
  then show ?thesis
  proof
    assume "\<exists>n\<in>set (subnodes tree). c \<in> set (v_classes (own gd (v_source_lines v) n))"
    then obtain n where n: "n \<in> set (subnodes tree)"
      and c: "c \<in> set (v_classes (own gd (v_source_lines v) n))" by blast
    from own_classes [OF visit_ok(1) [OF assms(1) n] c] n class_methods_all2
    show ?thesis by blast
  qed simp
qed

section \<open>Plain and asynchronous function definitions\<close>

text \<open>The four position attributes of a node of Python 3.8 or later.\<close>

definition at :: "int \<Rightarrow> int \<Rightarrow> int \<Rightarrow> int \<Rightarrow> attrs" where
  "at l c el ec =
     \<lparr>lineno = Some l, col_offset = Some c, end_lineno = Some el, end_col_offset = Some ec\<rparr>"

definition no_args :: node where
  "no_args = Arguments [] [] None [] [] None []"

lemma filter_functions_subset:
  "set (v_functions (filter_methods_from_functions v)) \<subseteq> set (v_functions v)"
  by (simp add: filter_methods_from_functions_def)

text \<open>
  Claim C10. After a traversal that raised nothing, the records in \<^verbatim>\<open>functions\<close> are, in
  order, exactly the records of the plain \<^verbatim>\<open>FunctionDef\<close> nodes of the tree, the later
  filter only removes records, and the methods of every class record are exactly the
  records of the plain \<^verbatim>\<open>FunctionDef\<close> items of the body of a \<^verbatim>\<open>ClassDef\<close> node. An
  \<^verbatim>\<open>AsyncFunctionDef\<close> node is not a \<^verbatim>\<open>FunctionDef\<close>: it yields no record, at module
  level or in a class body.
\<close>

theorem async_functions_invisible:
  assumes "visit gd tree (new_visitor source_code) = Inr v"
  shows "list_all2 (\<lambda>d f. process_function gd (splitlines source_code) d = Inr f)
           (filter is_FunctionDef (subnodes tree)) (v_functions v)
       \<and> set (v_functions (filter_methods_from_functions v)) \<subseteq> set (v_functions v)
       \<and> (\<forall>c\<in>set (v_classes v).
            \<exists>a name bases kws body decs.
              ClassDef a name bases kws body decs \<in> set (subnodes tree) \<and> c_name c = name \<and>
              list_all2 (\<lambda>d m. process_function gd (splitlines source_code) d = Inr m)
                (filter is_FunctionDef body) (c_methods c))
       \<and> v_classes (filter_methods_from_functions v) = v_classes v
       \<and> \<not> is_FunctionDef (AsyncFunctionDef a' name' args' body' decs' returns')"
proof (intro conjI)
  from visit_functions [OF assms]
  show "list_all2 (\<lambda>d f. process_function gd (splitlines source_code) d = Inr f)
           (filter is_FunctionDef (subnodes tree)) (v_functions v)"
    by (simp add: new_visitor_def)
next
  show "\<forall>c\<in>set (v_classes v).
            \<exists>a name bases kws body decs.
              ClassDef a name bases kws body decs \<in> set (subnodes tree) \<and> c_name c = name \<and>
              list_all2 (\<lambda>d m. process_function gd (splitlines source_code) d = Inr m)
                (filter is_FunctionDef body) (c_methods c)"
  proof
    fix c assume "c \<in> set (v_classes v)"
    from visit_classes [OF assms this] show "\<exists>a name bases kws body decs.
              ClassDef a name bases kws body decs \<in> set (subnodes tree) \<and> c_name c = name \<and>
              list_all2 (\<lambda>d m. process_function gd (splitlines source_code) d = Inr m)
                (filter is_FunctionDef body) (c_methods c)"
      by (simp add: new_visitor_def)
  qed
qed (simp_all add: filter_methods_from_functions_def)

text \<open>
  A file with an \<^verbatim>\<open>async def\<close> at module level and another in a class: no function
  record, and a class without methods.
\<close>

definition async_source :: string where
  "async_source = join [LF]
     [''async def f():'', ''    pass'', ''class C:'', ''    async def g(self):'',
      ''        pass'']"

definition async_tree :: node where
  "async_tree = Module
     [AsyncFunctionDef (at 1 0 2 8) ''f'' no_args [Other (at 2 4 2 8) []] [] None,
      ClassDef (at 3 0 5 12) ''C'' [] []
        [AsyncFunctionDef (at 4 4 5 12) ''g''
           (Arguments [] [Arg (at 4 16 4 20) ''self'' None] None [] [] None [])
           [Other (at 5 8 5 12) []] [] None] []]"

definition async_result :: visitor where
  "async_result =
     \<lparr>v_source_lines = splitlines async_source, v_imports = [],
      v_classes =
        [\<lparr>c_name = ''C'', c_line_range = (3, 5), c_methods = [],
          c_content = join [LF] [''class C:'', ''    async def g(self):'', ''        pass''],
          c_docstring = None, c_bases = None\<rparr>],
      v_functions = [], v_variables = []\<rparr>"

theorem async_functions_invisible_witness:
  "visit (\<lambda>n. None) async_tree (new_visitor async_source) = Inr async_result
   \<and> list_all2 (\<lambda>d f. process_function (\<lambda>n. None) (splitlines async_source) d = Inr f)
        (filter is_FunctionDef (subnodes async_tree)) (v_functions async_result)
   \<and> map c_name (v_classes async_result) = [''C'']
   \<and> v_functions async_result = []
   \<and> concat (map c_methods (v_classes async_result)) = []"
proof -
  have run: "visit (\<lambda>n. None) async_tree (new_visitor async_source) = Inr async_result"
    by code_simp
  from async_functions_invisible [OF run]
  have "list_all2 (\<lambda>d f. process_function (\<lambda>n. None) (splitlines async_source) d = Inr f)
        (filter is_FunctionDef (subnodes async_tree)) (v_functions async_result)"
    by (rule conjunct1)
  moreover have "map c_name (v_classes async_result) = [''C'']
     \<and> v_functions async_result = []
     \<and> concat (map c_methods (v_classes async_result)) = []"
    by (simp add: async_result_def)
  ultimately show ?thesis using run by blast
qed

section \<open>Methods and free functions\<close>

lemma method_signatures_eq:
  "method_signatures cs =
     {(f_name m, f_line_range m) | m c. c \<in> set cs \<and> m \<in> set (c_methods c)}"
proof -
  have inner: "fold (\<lambda>method sigs'. insert (f_name method, f_line_range method) sigs') ms sigs
      = sigs \<union> (\<lambda>m. (f_name m, f_line_range m)) ` set ms" for ms sigs
    by (induction ms arbitrary: sigs) auto
  have outer: "fold (\<lambda>class_info sigs.
             fold (\<lambda>method sigs'. insert (f_name method, f_line_range method) sigs')
               (c_methods class_info) sigs) cs sigs
     = sigs \<union> {(f_name m, f_line_range m) | m c. c \<in> set cs \<and> m \<in> set (c_methods c)}"
    for sigs
    by (induction cs arbitrary: sigs) (auto simp: inner)
  show ?thesis unfolding method_signatures_def outer by simp
qed

lemma not_in_method_signatures:
  "(f_name f, f_line_range f) \<notin> method_signatures cs \<longleftrightarrow>
   (\<forall>c\<in>set cs. \<forall>m\<in>set (c_methods c).
      \<not> (f_name f = f_name m \<and> f_line_range f = f_line_range m))"
  unfolding method_signatures_eq by auto

text \<open>
  Claim C1. In the result of the analysis of a file, no record of \<^verbatim>\<open>functions\<close> has the
  name and line range of a method of a class of the file. The traversal had put the
  record of every plain function definition of the tree into \<^verbatim>\<open>functions\<close>; the filter
  keeps, in order, exactly those whose pair of name and line range is that of no method,
  so a function with the name of a method and another span stays, and it leaves the
  classes as they are.
\<close>

theorem methods_not_among_functions:
  assumes "analyse_file read_file ast_parse gd path = Inr v"
  shows "(\<forall>f\<in>set (v_functions v). \<forall>c\<in>set (v_classes v). \<forall>m\<in>set (c_methods c).
            \<not> (f_name f = f_name m \<and> f_line_range f = f_line_range m))
       \<and> (\<exists>content tree v0.
            read_file path = Inr content \<and> ast_parse content = Inr tree \<and>
            visit gd tree (new_visitor content) = Inr v0 \<and>
            list_all2 (\<lambda>d f. process_function gd (splitlines content) d = Inr f)
              (filter is_FunctionDef (subnodes tree)) (v_functions v0) \<and>
            v_classes v = v_classes v0 \<and>
            v_functions v =
              [f \<leftarrow> v_functions v0.
                 \<forall>c\<in>set (v_classes v0). \<forall>m\<in>set (c_methods c).
                   \<not> (f_name f = f_name m \<and> f_line_range f = f_line_range m)])"
proof -
  from assms obtain content tree v0 where
    r: "read_file path = Inr content" and p: "ast_parse content = Inr tree" and
    t: "visit gd tree (new_visitor content) = Inr v0" and
    v: "v = filter_methods_from_functions v0"
    unfolding analyse_file_def try_bind_Inr by blast
  have cls: "v_classes v = v_classes v0"
    by (simp add: v filter_methods_from_functions_def)
  have fns: "v_functions v =
      [f \<leftarrow> v_functions v0.
         \<forall>c\<in>set (v_classes v0). \<forall>m\<in>set (c_methods c).
           \<not> (f_name f = f_name m \<and> f_line_range f = f_line_range m)]"
    by (simp add: v filter_methods_from_functions_def not_in_method_signatures)
  have all: "list_all2 (\<lambda>d f. process_function gd (splitlines content) d = Inr f)
      (filter is_FunctionDef (subnodes tree)) (v_functions v0)"
    using visit_functions [OF t] by (simp add: new_visitor_def)
  have "\<forall>f\<in>set (v_functions v). \<forall>c\<in>set (v_classes v). \<forall>m\<in>set (c_methods c).
            \<not> (f_name f = f_name m \<and> f_line_range f = f_line_range m)"
    unfolding cls fns by simp
  with r p t all cls fns show ?thesis by blast
qed

text \<open>
  A class \<^verbatim>\<open>A\<close> with a method \<^verbatim>\<open>m\<close> on lines 2 to 3, and a function \<^verbatim>\<open>m\<close> on lines 4 to 5:
  the traversal records both definitions as functions, the result keeps the second.
\<close>

definition shadow_source :: string where
  "shadow_source = join [LF]
     [''class A:'', ''    def m(self):'', ''        pass'', ''def m():'', ''    pass'']"

definition shadow_tree :: node where
  "shadow_tree = Module
     [ClassDef (at 1 0 3 12) ''A'' [] []
        [FunctionDef (at 2 4 3 12) ''m''
           (Arguments [] [Arg (at 2 10 2 14) ''self'' None] None [] [] None [])
           [Other (at 3 8 3 12) []] [] None] [],
      FunctionDef (at 4 0 5 8) ''m'' no_args [Other (at 5 4 5 8) []] [] None]"

definition shadow_method :: func_info where
  "shadow_method =
     \<lparr>f_name = ''m'', f_line_range = (2, 3),
      f_content = join [LF] [''def m(self):'', ''        pass''], f_docstring = None,
      f_params = [\<lparr>p_name = ''self'', p_type = None, p_default = None\<rparr>],
      f_returns = None\<rparr>"

definition shadow_function :: func_info where
  "shadow_function =
     \<lparr>f_name = ''m'', f_line_range = (4, 5),
      f_content = join [LF] [''def m():'', ''    pass''], f_docstring = None,
      f_params = [], f_returns = None\<rparr>"

definition shadow_result :: visitor where
  "shadow_result =
     \<lparr>v_source_lines = splitlines shadow_source, v_imports = [],
      v_classes =
        [\<lparr>c_name = ''A'', c_line_range = (1, 3), c_methods = [shadow_method],
          c_content = join [LF] [''class A:'', ''    def m(self):'', ''        pass''],
          c_docstring = None, c_bases = None\<rparr>],
      v_functions = [shadow_function], v_variables = []\<rparr>"

theorem methods_not_among_functions_witness:
  "analyse_file (\<lambda>p. Inr shadow_source) (\<lambda>s. Inr shadow_tree) (\<lambda>n. None) ''a.py''
     = Inr shadow_result
   \<and> v_functions (projr (visit (\<lambda>n. None) shadow_tree (new_visitor shadow_source)))
       = [shadow_method, shadow_function]
   \<and> v_functions shadow_result = [shadow_function]
   \<and> concat (map c_methods (v_classes shadow_result)) = [shadow_method]
   \<and> (f_name shadow_function, f_line_range shadow_function)
       \<notin> method_signatures (v_classes shadow_result)"
proof -
  have run: "analyse_file (\<lambda>p. Inr shadow_source) (\<lambda>s. Inr shadow_tree) (\<lambda>n. None) ''a.py''
     = Inr shadow_result"
    by code_simp
  have pre: "v_functions (projr (visit (\<lambda>n. None) shadow_tree (new_visitor shadow_source)))
       = [shadow_method, shadow_function]"
    by code_simp
  have lists: "v_functions shadow_result = [shadow_function]
      \<and> concat (map c_methods (v_classes shadow_result)) = [shadow_method]"
    by (simp add: shadow_result_def)
  from methods_not_among_functions [OF run]
  have "\<forall>f\<in>set (v_functions shadow_result). \<forall>c\<in>set (v_classes shadow_result).
         \<forall>m\<in>set (c_methods c).
           \<not> (f_name f = f_name m \<and> f_line_range f = f_line_range m)"
    by (rule conjunct1)
  then have "(f_name shadow_function, f_line_range shadow_function)
       \<notin> method_signatures (v_classes shadow_result)"
    unfolding not_in_method_signatures using lists by simp
  with run pre lists show ?thesis by blast
qed

section \<open>Variable records\<close>

text \<open>
  The variable records as the specification words them: only the assignments that are
  statements of the module itself count.
\<close>

definition top_level_variables :: "string list \<Rightarrow> node \<Rightarrow> variable_info list" where
  "top_level_variables sl tree =
     (case tree of Module body \<Rightarrow> concat (map (expected_variables sl) body) | _ \<Rightarrow> [])"

text \<open>An assignment in the body of a function: \<^verbatim>\<open>x = 1\<close> on line 2.\<close>

definition nested_source :: string where
  "nested_source = join [LF] [''def f():'', ''    x = 1'']"

definition nested_tree :: node where
  "nested_tree = Module
     [FunctionDef (at 1 0 2 9) ''f'' no_args
        [Assign (at 2 4 2 9) [Name (at 2 4 2 5) ''x''] (Other (at 2 8 2 9) [])] [] None]"

definition nested_result :: visitor where
  "nested_result =
     \<lparr>v_source_lines = [''def f():'', ''    x = 1''], v_imports = [], v_classes = [],
      v_functions =
        [\<lparr>f_name = ''f'', f_line_range = (1, 2),
          f_content = join [LF] [''def f():'', ''    x = 1''],
          f_docstring = None, f_params = [], f_returns = None\<rparr>],
      v_variables = [\<lparr>var_name = ''x'', var_line = 2, var_value = ''1''\<rparr>]\<rparr>"

theorem variables_top_level_only_counterexample:
  "visit (\<lambda>n. None) nested_tree (new_visitor nested_source) = Inr nested_result
   \<and> v_variables nested_result = [\<lparr>var_name = ''x'', var_line = 2, var_value = ''1''\<rparr>]
   \<and> top_level_variables (splitlines nested_source) nested_tree = []"
  by code_simp

text \<open>
  Claim C7, amended. When the traversal of the tree of a file raises nothing, the
  variable records are exactly, for every assignment statement of the form
  \<^verbatim>\<open>target = expression\<close> (an \<^verbatim>\<open>Assign\<close> node; a node of another kind yields none) that the
  traversal reaches, at module level or at any depth below it, and in the order of the
  traversal, one record per target that is a \<^verbatim>\<open>Name\<close>, in target order, with the name,
  the line of the assignment and the text that \<^verbatim>\<open>_get_node_source\<close> returns for the
  value; a target that is not a \<^verbatim>\<open>Name\<close> yields no record. When the traversal raises,
  the result for the file has no \<^verbatim>\<open>'variables'\<close> key.
\<close>

theorem variables_at_any_depth:
  "(visit gd tree (new_visitor source_code) = Inr v \<longrightarrow>
      v_variables v =
        concat (map (expected_variables (splitlines source_code)) (subnodes tree)))
   \<and> (read_file path = Inr source_code \<longrightarrow> ast_parse source_code = Inr tree \<longrightarrow>
        fs_variables (parse_python_file read_file ast_parse gd path) =
          (case visit gd tree (new_visitor source_code) of
             Inr v' \<Rightarrow>
               Some (concat (map (expected_variables (splitlines source_code))
                       (subnodes tree)))
           | Inl e \<Rightarrow> None))
   \<and> expected_variables sl (Other a children) = []
   \<and> expected_variables sl (Assign a' targets val) =
       (case (lineno a', get_node_source sl val) of
          (Some ln, Inr s) \<Rightarrow>
            map (\<lambda>ident. \<lparr>var_name = ident, var_line = ln, var_value = s\<rparr>)
              (name_targets targets)
        | _ \<Rightarrow> [])"
proof (intro conjI impI)
  assume "visit gd tree (new_visitor source_code) = Inr v"
  from visit_variables [OF this]
  show "v_variables v =
        concat (map (expected_variables (splitlines source_code)) (subnodes tree))"
    by (simp add: new_visitor_def)
next
  assume r: "read_file path = Inr source_code" and p: "ast_parse source_code = Inr tree"
  show "fs_variables (parse_python_file read_file ast_parse gd path) =
          (case visit gd tree (new_visitor source_code) of
             Inr v' \<Rightarrow>
               Some (concat (map (expected_variables (splitlines source_code))
                       (subnodes tree)))
           | Inl e \<Rightarrow> None)"
  proof (cases "visit gd tree (new_visitor source_code)")
    case (Inl e)
    then show ?thesis
      by (simp add: parse_python_file_def analyse_file_def r p)
  next
    case (Inr v')
    from visit_variables [OF Inr]
    have "v_variables v' =
        concat (map (expected_variables (splitlines source_code)) (subnodes tree))"
      by (simp add: new_visitor_def)
    then show ?thesis
      by (simp add: parse_python_file_def analyse_file_def r p Inr
            filter_methods_from_functions_def)
  qed
qed (simp_all add: expected_variables_def)

text \<open>
  Two names bound by one assignment, a tuple target, and an assignment in a function
  body.
\<close>

definition assign_source :: string where
  "assign_source = join [LF] [''a = b = 1'', ''c, d = 1, 2'', ''def f():'', ''    x = a'']"

definition assign_tree :: node where
  "assign_tree = Module
     [Assign (at 1 0 1 9) [Name (at 1 0 1 1) ''a'', Name (at 1 4 1 5) ''b'']
        (Other (at 1 8 1 9) []),
      Assign (at 2 0 2 11)
        [Other (at 2 0 2 4) [Name (at 2 0 2 1) ''c'', Name (at 2 3 2 4) ''d'']]
        (Other (at 2 7 2 11) [Other (at 2 7 2 8) [], Other (at 2 10 2 11) []]),
      FunctionDef (at 3 0 4 9) ''f'' no_args
        [Assign (at 4 4 4 9) [Name (at 4 4 4 5) ''x''] (Name (at 4 8 4 9) ''a'')] [] None]"

definition assign_result :: visitor where
  "assign_result =
     \<lparr>v_source_lines = [''a = b = 1'', ''c, d = 1, 2'', ''def f():'', ''    x = a''],
      v_imports = [], v_classes = [],
      v_functions =
        [\<lparr>f_name = ''f'', f_line_range = (3, 4),
          f_content = join [LF] [''def f():'', ''    x = a''],
          f_docstring = None, f_params = [], f_returns = None\<rparr>],
      v_variables =
        [\<lparr>var_name = ''a'', var_line = 1, var_value = ''1''\<rparr>,
         \<lparr>var_name = ''b'', var_line = 1, var_value = ''1''\<rparr>,
         \<lparr>var_name = ''x'', var_line = 4, var_value = ''a''\<rparr>]\<rparr>"

theorem variables_at_any_depth_witness:
  "visit (\<lambda>n. None) assign_tree (new_visitor assign_source) = Inr assign_result
   \<and> v_variables assign_result
       = concat (map (expected_variables (splitlines assign_source)) (subnodes assign_tree))
   \<and> v_variables assign_result
       = [\<lparr>var_name = ''a'', var_line = 1, var_value = ''1''\<rparr>,
          \<lparr>var_name = ''b'', var_line = 1, var_value = ''1''\<rparr>,
          \<lparr>var_name = ''x'', var_line = 4, var_value = ''a''\<rparr>]"
proof -
  have run: "visit (\<lambda>n. None) assign_tree (new_visitor assign_source) = Inr assign_result"
    by code_simp
  have "v_variables assign_result
       = [\<lparr>var_name = ''a'', var_line = 1, var_value = ''1''\<rparr>,
          \<lparr>var_name = ''b'', var_line = 1, var_value = ''1''\<rparr>,
          \<lparr>var_name = ''x'', var_line = 4, var_value = ''a''\<rparr>]"
    by (simp add: assign_result_def)
  with run variables_at_any_depth [THEN conjunct1, rule_format, OF run]
  show ?thesis by blast
qed

section \<open>Files that cannot be analysed\<close>


text \<open>The analysis of the file at a path raises.\<close>

definition fails ::
  "(string \<Rightarrow> exn + string) \<Rightarrow> (string \<Rightarrow> exn + node) \<Rightarrow> (node \<Rightarrow> string option) \<Rightarrow>
   string \<Rightarrow> bool" where
  "fails read_file ast_parse gd path =
     (case analyse_file read_file ast_parse gd path of Inl e \<Rightarrow> True | Inr v \<Rightarrow> False)"





lemma parse_python_file_cases:
  "parse_python_file rf ap gd path =
     (case analyse_file rf ap gd path of
        Inr v \<Rightarrow> \<lparr>file_path = path, fs_imports = Some (v_imports v),
                  fs_classes = Some (v_classes v), fs_functions = Some (v_functions v),
                  fs_variables = Some (v_variables v), fs_error = None\<rparr>
      | Inl e \<Rightarrow> \<lparr>file_path = path, fs_imports = None, fs_classes = None,
                  fs_functions = None, fs_variables = None, fs_error = Some (str_exn e)\<rparr>)"
  by (simp add: parse_python_file_def)

lemma error_iff_fails:
  "fs_error (parse_python_file rf ap gd path) \<noteq> None \<longleftrightarrow> fails rf ap gd path"
  "fs_classes (parse_python_file rf ap gd path) \<noteq> None \<longleftrightarrow> \<not> fails rf ap gd path"
  by (simp_all add: parse_python_file_cases fails_def split: sum.splits)









section \<open>Parameters and their defaults\<close>

lemma norm_index_nonneg: "0 \<le> i \<Longrightarrow> nat i < n \<Longrightarrow> norm_index n i = Some (nat i)"
  by (auto simp: norm_index_def)

lemma apply_defaults_nth:
  assumes "list_all2 (\<lambda>d s. get_node_source sl d = Inr s) ds srcs"
    and "0 \<le> off + i" and "nat (off + i) + length ds \<le> length params"
  shows "\<exists>res. apply_defaults sl off i ds params = Inr res \<and> length res = length params \<and>
           (\<forall>j<length params.
              res ! j =
                (if nat (off + i) \<le> j \<and> j < nat (off + i) + length ds
                 then (params ! j)\<lparr>p_default := Some (srcs ! (j - nat (off + i)))\<rparr>
                 else params ! j))"
  using assms
proof (induction ds srcs arbitrary: i params rule: list_all2_induct)
  case Nil
  then show ?case by auto
next
  case (Cons d ds s srcs)
  let ?m = "nat (off + i)"
  let ?params' = "params[?m := (params ! ?m)\<lparr>p_default := Some s\<rparr>]"
  from Cons.prems have m: "?m < length params" by simp
  have upd: "py_update params (off + i) (\<lambda>p. p\<lparr>p_default := Some s\<rparr>) = Inr ?params'"
    using Cons.prems m by (simp add: py_update_def norm_index_nonneg)
  have next_m: "nat (off + (i + 1)) = Suc ?m" using Cons.prems by simp
  have "0 \<le> off + (i + 1)" using Cons.prems by simp
  moreover have "nat (off + (i + 1)) + length ds \<le> length ?params'"
    using Cons.prems by (simp add: next_m)
  ultimately obtain res where
    run: "apply_defaults sl off (i + 1) ds ?params' = Inr res" and
    len: "length res = length ?params'" and
    nth: "\<forall>j<length ?params'.
            res ! j =
              (if nat (off + (i + 1)) \<le> j \<and> j < nat (off + (i + 1)) + length ds
               then (?params' ! j)\<lparr>p_default := Some (srcs ! (j - nat (off + (i + 1))))\<rparr>
               else ?params' ! j)"
    using Cons.IH [of "i + 1" ?params'] by blast
  have "apply_defaults sl off i (d # ds) params = Inr res"
    using Cons.hyps(1) upd run by simp
  moreover have "length res = length params" using len by simp
  moreover have "\<forall>j<length params.
      res ! j =
        (if ?m \<le> j \<and> j < ?m + length (d # ds)
         then (params ! j)\<lparr>p_default := Some ((s # srcs) ! (j - ?m))\<rparr>
         else params ! j)"
  proof (intro allI impI)
    fix j assume j: "j < length params"
    show "res ! j =
        (if ?m \<le> j \<and> j < ?m + length (d # ds)
         then (params ! j)\<lparr>p_default := Some ((s # srcs) ! (j - ?m))\<rparr>
         else params ! j)"
    proof (cases "j = ?m")
      case True
      then show ?thesis using nth j m by (simp add: next_m)
    next
      case False
      then show ?thesis using nth j m
        by (auto simp: next_m nth_Cons' Suc_diff_le)
    qed
  qed
  ultimately show ?case by blast
qed


lemma arg_params_plain:
  "arg_params sl args = Inr ps \<Longrightarrow>
     length ps = length args \<and> (\<forall>j<length args. arg_param sl (args ! j) = Inr (ps ! j))"
proof (induction args arbitrary: ps)
  case Nil
  then show ?case by simp
next
  case (Cons arg rest)
  from Cons.prems obtain p ps' where
    p: "arg_param sl arg = Inr p" and ps': "arg_params sl rest = Inr ps'" and
    ps: "ps = p # ps'"
    by (auto simp: try_bind_def split: sum.splits)
  from Cons.IH [OF ps'] p ps show ?case by (auto simp: nth_Cons')
qed

lemma arg_param_no_default: "arg_param sl arg = Inr p \<Longrightarrow> p_default p = None"
  by (cases arg) (auto simp: try_bind_def split: option.splits sum.splits)

text \<open>
  With no more defaults than entries in \<^verbatim>\<open>args.args\<close>, the defaults land on the last
  parameters of that list, in order, and every parameter keeps its name and type.
\<close>

lemma defaults_aligned:
  assumes ps: "arg_params sl args = Inr ps"
    and srcs: "list_all2 (\<lambda>d s. get_node_source sl d = Inr s) defaults srcs"
    and le: "length defaults \<le> length args"
  shows "\<exists>res.
      extract_parameters sl
        (FunctionDef a name (Arguments posonly args vararg kwonly kw_defaults kwarg defaults)
           body decs returns) = Inr res
      \<and> length res = length args
      \<and> (\<forall>j<length args.
            res ! j =
              (if length args - length defaults \<le> j
               then (ps ! j)\<lparr>p_default := Some (srcs ! (j - (length args - length defaults)))\<rparr>
               else ps ! j))"
proof (cases "defaults = []")
  case True
  then show ?thesis using ps arg_params_plain [OF ps] by simp
next
  case False
  let ?off = "int (length args) - int (length defaults)"
  have len: "length ps = length args" using arg_params_plain [OF ps] by simp
  have m: "nat (?off + 0) = length args - length defaults" using le by simp
  have "0 \<le> ?off + 0" using le by simp
  moreover have "nat (?off + 0) + length defaults \<le> length ps" using le len by simp
  ultimately obtain res where
    run: "apply_defaults sl ?off 0 defaults ps = Inr res" and
    l: "length res = length ps" and
    nth: "\<forall>j<length ps.
              res ! j =
                (if nat (?off + 0) \<le> j \<and> j < nat (?off + 0) + length defaults
                 then (ps ! j)\<lparr>p_default := Some (srcs ! (j - nat (?off + 0)))\<rparr>
                 else ps ! j)"
    using apply_defaults_nth [OF srcs, of ?off 0 ps] by blast
  have "extract_parameters sl
        (FunctionDef a name (Arguments posonly args vararg kwonly kw_defaults kwarg defaults)
           body decs returns) = Inr res"
    using ps run False by simp
  moreover have "\<forall>j<length args.
            res ! j =
              (if length args - length defaults \<le> j
               then (ps ! j)\<lparr>p_default := Some (srcs ! (j - (length args - length defaults)))\<rparr>
               else ps ! j)"
    using nth le unfolding m len by auto
  ultimately show ?thesis using l len by auto
qed

text \<open>The function \<^verbatim>\<open>def f(a, b, c=1, d=2): pass\<close>, with the positions the parser gives.\<close>

definition trailing_source :: string where
  "trailing_source = ''def f(a, b, c=1, d=2): pass''"

definition trailing_def :: node where
  "trailing_def =
     FunctionDef (at 1 0 1 27) ''f''
       (Arguments []
          [Arg (at 1 6 1 7) ''a'' None, Arg (at 1 9 1 10) ''b'' None,
           Arg (at 1 12 1 13) ''c'' None, Arg (at 1 17 1 18) ''d'' None]
          None [] [] None
          [Other (at 1 14 1 15) [], Other (at 1 19 1 20) []])
       [Other (at 1 23 1 27) []] [] None"

lemma trailing_defaults:
  "extract_parameters (splitlines trailing_source) trailing_def =
     Inr [\<lparr>p_name = ''a'', p_type = None, p_default = None\<rparr>,
          \<lparr>p_name = ''b'', p_type = None, p_default = None\<rparr>,
          \<lparr>p_name = ''c'', p_type = None, p_default = Some ''1''\<rparr>,
          \<lparr>p_name = ''d'', p_type = None, p_default = Some ''2''\<rparr>]"
  by code_simp

text \<open>
  The function \<^verbatim>\<open>def f(a=1, /): pass\<close>. Its parameter is positional-only: the parser puts
  it in \<^verbatim>\<open>args.posonlyargs\<close> and leaves \<^verbatim>\<open>args.args\<close> empty, while its default is the one
  entry of \<^verbatim>\<open>args.defaults\<close>.
\<close>

definition posonly_source :: string where
  "posonly_source = ''def f(a=1, /): pass''"

definition posonly_def :: node where
  "posonly_def =
     FunctionDef (at 1 0 1 19) ''f''
       (Arguments [Arg (at 1 6 1 7) ''a'' None] [] None [] [] None [Other (at 1 8 1 9) []])
       [Other (at 1 15 1 19) []] [] None"

definition posonly_tree :: node where
  "posonly_tree = Module [posonly_def]"

text \<open>
  Claim C5. The defaults of a function are to land on its last parameters. For
  \<^verbatim>\<open>def f(a=1, /): pass\<close> the one default belongs to the one parameter \<open>a\<close>; the code
  computes the offset \<open>0 - 1\<close> from the empty \<^verbatim>\<open>args.args\<close>, indexes the empty parameter
  list with it and raises \<^verbatim>\<open>IndexError\<close>, so that the analysis of the whole file ends as
  an error entry.
\<close>

theorem positional_only_default_raises:
  "extract_parameters (splitlines posonly_source) posonly_def = Inl IndexError
   \<and> process_function (\<lambda>n. None) (splitlines posonly_source) posonly_def = Inl IndexError
   \<and> parse_python_file (\<lambda>p. Inr posonly_source) (\<lambda>s. Inr posonly_tree) (\<lambda>n. None) ''a.py'' =
       \<lparr>file_path = ''a.py'', fs_imports = None, fs_classes = None, fs_functions = None,
        fs_variables = None, fs_error = Some ''list index out of range''\<rparr>"
  by code_simp


section \<open>Content and span\<close>

text \<open>
  The text that a span delimits in the original source, as the specification words it: the
  lines are those that the newline character ends, which is how the parser numbers them; a
  span within one line is the column slice of that line; a longer one is the start line from
  its start column, the lines between, and the end line up to its end column, joined with
  newline characters.
\<close>

fun newline_lines :: "string \<Rightarrow> string list" where
  "newline_lines [] = [[]]"
| "newline_lines (c # cs) =
     (if c = LF then [] # newline_lines cs
      else case newline_lines cs of l # ls \<Rightarrow> (c # l) # ls | [] \<Rightarrow> [[c]])"

definition span_text :: "string \<Rightarrow> nat \<Rightarrow> nat \<Rightarrow> nat \<Rightarrow> nat \<Rightarrow> string" where
  "span_text source l c el ec =
     (let ls = newline_lines source in
      if l = el then take (ec - c) (drop c (ls ! (l - 1)))
      else join [LF]
             ([drop c (ls ! (l - 1))] @ take (el - 1 - l) (drop l ls) @ [take ec (ls ! (el - 1))]))"

text \<open>
  A file with a form feed on a line of its own, between the import and the function. The
  parser takes the form feed for white space: the function is on lines 3 and 4.
\<close>

definition formfeed_source :: string where
  "formfeed_source =
     ''import os'' @ [LF, CHR 0x0C, LF] @ ''def f():'' @ [LF] @ ''    return 1'' @ [LF]"

definition formfeed_tree :: node where
  "formfeed_tree = Module
     [Import (at 1 0 1 9) [Alias (at 1 7 1 9) ''os'' None],
      FunctionDef (at 3 0 4 12) ''f'' no_args
        [Other (at 4 4 4 12) [Other (at 4 11 4 12) []]] [] None]"

text \<open>
  Claim C2. The content of a record is to be the text that its span delimits in the
  original source. \<^verbatim>\<open>_get_node_source\<close> slices the lines of \<^verbatim>\<open>str.splitlines\<close>, which breaks
  a line at a form feed too, while the spans count the lines that a newline ends: in the
  file above the function of lines 3 to 4 gets the content of the wrong lines, an empty line
  and its own first line, and loses its body.
\<close>

theorem content_is_not_span_text:
  "splitlines formfeed_source = [''import os'', [], [], ''def f():'', ''    return 1'']
   \<and> newline_lines formfeed_source =
       [''import os'', [CHR 0x0C], ''def f():'', ''    return 1'', []]
   \<and> parse_python_file (\<lambda>p. Inr formfeed_source) (\<lambda>s. Inr formfeed_tree) (\<lambda>n. None) ''a.py'' =
       \<lparr>file_path = ''a.py'',
        fs_imports = Some [\<lparr>imp_name = ''os'', imp_alias = None, imp_line = 1\<rparr>],
        fs_classes = Some [],
        fs_functions =
          Some [\<lparr>f_name = ''f'', f_line_range = (3, 4), f_content = LF # ''def f():'',
                 f_docstring = None, f_params = [], f_returns = None\<rparr>],
        fs_variables = Some [], fs_error = None\<rparr>
   \<and> span_text formfeed_source 3 0 4 12 = ''def f():'' @ [LF] @ ''    return 1''
   \<and> LF # ''def f():'' \<noteq> span_text formfeed_source 3 0 4 12"
  by code_simp

text \<open>
  The columns of a span count the bytes of the line in UTF-8, and the code slices the line
  by character: after a character of two bytes the slice runs one character too far. In
  \<^verbatim>\<open>def f(): return "e"  # c\<close>, with an accented \<open>e\<close> (U+00E9), the function ends at byte 20,
  which is character 19, and its content takes the space that follows.
\<close>

definition accent_source :: string where
  "accent_source = ''def f(): return \"'' @ [CHR 0xE9] @ ''\"  # c'' @ [LF]"

definition accent_tree :: node where
  "accent_tree = Module
     [FunctionDef (at 1 0 1 20) ''f'' no_args
        [Other (at 1 9 1 20) [Other (at 1 16 1 20) []]] [] None]"

lemma content_by_character_columns:
  "map f_content
     (case fs_functions
        (parse_python_file (\<lambda>p. Inr accent_source) (\<lambda>s. Inr accent_tree) (\<lambda>n. None) ''a.py'')
      of Some fns \<Rightarrow> fns | None \<Rightarrow> []) =
     [''def f(): return \"'' @ [CHR 0xE9] @ ''\" '']"
  by code_simp


section \<open>The end line of a node\<close>


declare get_end_line.simps [simp del]















end
